theory Spec2Isabelle
  imports Main
begin

section \<open>JavaScript values and the language operations the handler uses\<close>

text \<open>
  The handler of \<^verbatim>\<open>src/index.ts\<close> works on untyped data: the body of the gateway's
  answer (\<^verbatim>\<open>await flutterwaveResponse.json()\<close>), the rows and error objects of the
  datastore client. Such a value is \<open>undefined\<close>, \<open>null\<close>, a boolean, a number, a string,
  an array or an object. A number is kept as its canonical decimal text (what
  \<^verbatim>\<open>String(n)\<close> prints: \<open>0.05\<close>, \<open>4975363\<close>); the handler only tests numbers for
  truthiness, prints them and passes them on. \<open>JNative\<close> is a built-in function of the
  runtime's standard library, under its name; it is never part of decoded JSON and only
  a property read that reaches the prototype chain yields one.
\<close>

datatype jsval =
    JUndefined
  | JNull
  | JBool bool
  | JNum string
  | JStr string
  | JArr "jsval list"
  | JObj "(string \<times> jsval) list"
  | JNative string

text \<open>Thrown values: every one the handler can meet is an \<^verbatim>\<open>Error\<close> with a message.\<close>

datatype js_error = Error string | TypeError string | SyntaxError string

fun message :: "js_error \<Rightarrow> string" where
  "message (Error m) = m"
| "message (TypeError m) = m"
| "message (SyntaxError m) = m"

fun nullish :: "jsval \<Rightarrow> bool" where
  "nullish JUndefined = True"
| "nullish JNull = True"
| "nullish _ = False"

text \<open>\<^verbatim>\<open>ToBoolean\<close>: what \<^verbatim>\<open>!x\<close>, \<^verbatim>\<open>x || y\<close>, \<^verbatim>\<open>x ? a : b\<close> and \<^verbatim>\<open>if (x)\<close> test.\<close>

fun truthy :: "jsval \<Rightarrow> bool" where
  "truthy JUndefined = False"
| "truthy JNull = False"
| "truthy (JBool b) = b"
| "truthy (JNum n) = (if n = ''0'' then False else if n = ''NaN'' then False else True)"
| "truthy (JStr s) = (if s = [] then False else True)"
| "truthy (JArr _) = True"
| "truthy (JObj _) = True"
| "truthy (JNative _) = True"

text \<open>
  \<open>own v k\<close> is the property \<open>k\<close> of a value that is not \<open>undefined\<close> or \<open>null\<close>, for the
  keys the handler writes as literals (\<open>status\<close>, \<open>data\<close>, \<open>customer\<close>, \<open>email\<close>, \<open>name\<close>,
  \<open>meta\<close>, \<open>plan_type\<close>, \<open>is_trial\<close>, \<open>pending_user_data\<close>, \<open>password\<close>, \<open>id\<close>, \<open>amount\<close>,
  \<open>currency\<close>, \<open>payment_type\<close>, \<open>user_id\<close>, \<open>user\<close>): no built-in prototype defines any of
  them, so the read finds an own property of an object or nothing.
\<close>

fun own :: "jsval \<Rightarrow> string \<Rightarrow> jsval" where
  "own (JObj kvs) k = (case map_of kvs k of Some v \<Rightarrow> v | None \<Rightarrow> JUndefined)"
| "own _ k = JUndefined"

text \<open>\<^verbatim>\<open>v.k\<close>: a \<^verbatim>\<open>TypeError\<close> on \<open>undefined\<close> and \<open>null\<close> (the message is V8's).\<close>

fun get_prop :: "jsval \<Rightarrow> string \<Rightarrow> js_error + jsval" where
  "get_prop JUndefined k =
     Inl (TypeError (''Cannot read properties of undefined (reading '' @
                     [CHR 0x27] @ k @ [CHR 0x27] @ '')''))"
| "get_prop JNull k =
     Inl (TypeError (''Cannot read properties of null (reading '' @
                     [CHR 0x27] @ k @ [CHR 0x27] @ '')''))"
| "get_prop v k = Inr (own v k)"

text \<open>\<^verbatim>\<open>v?.k\<close>: \<open>undefined\<close> on \<open>undefined\<close> and \<open>null\<close>.\<close>

definition opt_prop :: "jsval \<Rightarrow> string \<Rightarrow> jsval" where
  "opt_prop v k = (if nullish v then JUndefined else own v k)"

text \<open>
  \<^verbatim>\<open>ToString\<close>, as a template literal and a computed property key apply it. An object
  is converted by its \<open>toString\<close> method or else its \<open>valueOf\<close> method. An object decoded
  from JSON has no callable own property, so an own \<open>toString\<close> key hides
  \<^verbatim>\<open>Object.prototype.toString\<close>, and \<open>valueOf\<close> is then either hidden as well or the
  inherited one, which returns the object itself: the conversion throws. Any other
  object prints as \<open>[object Object]\<close>. An array prints its elements joined by commas,
  \<open>undefined\<close> and \<open>null\<close> elements as nothing.
\<close>

fun to_string :: "jsval \<Rightarrow> js_error + string"
  and join :: "jsval list \<Rightarrow> js_error + string" where
  "to_string JUndefined = Inr ''undefined''"
| "to_string JNull = Inr ''null''"
| "to_string (JBool b) = Inr (if b then ''true'' else ''false'')"
| "to_string (JNum n) = Inr n"
| "to_string (JStr s) = Inr s"
| "to_string (JArr xs) = join xs"
| "to_string (JObj kvs) =
     (if ''toString'' \<in> fst ` set kvs
      then Inl (TypeError ''Cannot convert object to primitive value'')
      else Inr ''[object Object]'')"
| "to_string (JNative n) = Inr (''function '' @ n @ ''() { [native code] }'')"
| "join [] = Inr []"
| "join (x # xs) =
     (case (if nullish x then Inr [] else to_string x) of
        Inl e \<Rightarrow> Inl e
      | Inr s \<Rightarrow>
          (if xs = [] then Inr s
           else (case join xs of Inl e \<Rightarrow> Inl e | Inr r \<Rightarrow> Inr (s @ '','' @ r))))"

text \<open>
  \<^verbatim>\<open>v?.toString()\<close>: \<open>undefined\<close> when \<open>v\<close> is \<open>undefined\<close> or \<open>null\<close>; otherwise the
  method is looked up and called. On a decoded object with an own \<open>toString\<close> key the
  property is not a function.
\<close>

definition opt_toString :: "string \<Rightarrow> jsval \<Rightarrow> js_error + jsval" where
  "opt_toString expr v =
     (if nullish v then Inr JUndefined
      else (case v of
              JObj kvs \<Rightarrow>
                (if ''toString'' \<in> fst ` set kvs
                 then Inl (TypeError (expr @ ''?.toString is not a function''))
                 else Inr (JStr ''[object Object]''))
            | _ \<Rightarrow> (case to_string v of Inl e \<Rightarrow> Inl e | Inr s \<Rightarrow> Inr (JStr s))))"

text \<open>The query string of the request, decoded: \<^verbatim>\<open>searchParams.get\<close> gives the first value
  of a name, or \<open>null\<close>.\<close>

definition searchParams_get :: "(string \<times> string) list \<Rightarrow> string \<Rightarrow> jsval" where
  "searchParams_get q k = (case map_of q k of Some v \<Rightarrow> JStr v | None \<Rightarrow> JNull)"

section \<open>The fee table\<close>

text \<open>
  \<^verbatim>\<open>feeRates[planType]\<close> reads an object literal under a key that is data. The key is
  converted to a string; the read looks at the literal's own properties and then at
  its prototype, \<^verbatim>\<open>Object.prototype\<close>. The members of that object are the seven the
  language standard gives it (\<open>constructor\<close>, \<open>hasOwnProperty\<close>, \<open>isPrototypeOf\<close>,
  \<open>propertyIsEnumerable\<close>, \<open>toLocaleString\<close>, \<open>toString\<close>, \<open>valueOf\<close>) and the four legacy
  helpers of V8; the accessor \<open>__proto__\<close>, which Deno deletes at start-up, is left
  out. Each of them is a function, hence truthy.
\<close>

definition feeRates :: "(string \<times> jsval) list" where
  "feeRates =
     [(''starter'', JNum ''0.05''),
      (''professional'', JNum ''0.03''),
      (''enterprise'', JNum ''0.01'')]"

definition object_prototype :: "(string \<times> jsval) list" where
  "object_prototype =
     [(''constructor'', JNative ''Object''),
      (''__defineGetter__'', JNative ''__defineGetter__''),
      (''__defineSetter__'', JNative ''__defineSetter__''),
      (''hasOwnProperty'', JNative ''hasOwnProperty''),
      (''__lookupGetter__'', JNative ''__lookupGetter__''),
      (''__lookupSetter__'', JNative ''__lookupSetter__''),
      (''isPrototypeOf'', JNative ''isPrototypeOf''),
      (''propertyIsEnumerable'', JNative ''propertyIsEnumerable''),
      (''toString'', JNative ''toString''),
      (''valueOf'', JNative ''valueOf''),
      (''toLocaleString'', JNative ''toLocaleString'')]"

definition get_computed :: "(string \<times> jsval) list \<Rightarrow> jsval \<Rightarrow> js_error + jsval" where
  "get_computed literal key =
     (case to_string key of
        Inl e \<Rightarrow> Inl e
      | Inr k \<Rightarrow>
          (case map_of literal k of
             Some v \<Rightarrow> Inr v
           | None \<Rightarrow>
               (case map_of object_prototype k of
                  Some v \<Rightarrow> Inr v
                | None \<Rightarrow> Inr JUndefined)))"

definition getPlanFeeRate :: "jsval \<Rightarrow> js_error + jsval" where
  "getPlanFeeRate planType =
     (case get_computed feeRates planType of
        Inl e \<Rightarrow> Inl e
      | Inr rate \<Rightarrow> Inr (if truthy rate then rate else JNum ''0.05''))"

section \<open>The outside world\<close>

text \<open>
  One invocation talks to the payment gateway, to the datastore and to the account
  service. Their answers are the inputs of the model, one field per call the handler
  can make; what the handler sends is recorded, in order, as a list of effects.

  \<^item> The gateway: \<^verbatim>\<open>fetch\<close> may reject, \<^verbatim>\<open>.json()\<close> may reject, or the body decodes
    to a value.
  \<^item> The datastore client resolves every query to a pair of data and error (it does
    not reject); an error object is truthy, so a reported error is \<open>Some\<close> and \<open>null\<close> is
    \<open>None\<close>.
  \<^item> \<^verbatim>\<open>auth.admin.createUser\<close> returns data and error, or rejects.
  \<^item> \<^verbatim>\<open>new Date().toISOString()\<close> is read twice; the two readings are inputs.
  \<^item> The datastore URL and service key of lines 10 and 11 are taken as configured, as
    their non-null assertions say; the gateway key is read with no such assertion and
    may be missing.
\<close>

datatype api_error = ApiError string

datatype gateway_outcome =
    FetchRejects js_error
  | BodyNotJson js_error
  | JsonBody jsval

datatype select_outcome =
    QueryFailed api_error
  | Rows "jsval list"

datatype create_outcome =
    CreateUserRejects js_error
  | CreateUserReturns jsval "api_error option"

record world =
  flutterwave_secret_key :: "string option"
  gateway :: gateway_outcome
  subscriptions_select :: select_outcome
  create_user :: create_outcome
  subscriptions_update :: "api_error option"
  profiles_update :: "api_error option"
  transactions_insert :: "api_error option"
  notifications_insert :: "api_error option"
  clock_subscription :: string
  clock_profile :: string

record query_result =
  data :: jsval
  error :: "api_error option"

text \<open>
  \<^verbatim>\<open>.single()\<close> of the datastore client: the row when the query matched exactly one,
  otherwise no data and an error (code \<open>PGRST116\<close> for no row or several).
\<close>

fun single :: "select_outcome \<Rightarrow> query_result" where
  "single (QueryFailed e) = \<lparr>data = JNull, error = Some e\<rparr>"
| "single (Rows [r]) = \<lparr>data = r, error = None\<rparr>"
| "single (Rows rs) = \<lparr>data = JNull, error = Some (ApiError ''PGRST116'')\<rparr>"

datatype console_arg =
    Val jsval
  | Reported "api_error option"
  | Caught js_error

datatype effect =
    ConsoleLog string "console_arg list"
  | ConsoleError string "console_arg list"
  | Fetch string string "(string \<times> string) list"
  | SelectSingle string string jsval
  | AuthAdminCreateUser jsval
  | Update string jsval string jsval
  | Insert string jsval

text \<open>The calls that change something outside: account creation, updates, inserts.\<close>

fun is_write :: "effect \<Rightarrow> bool" where
  "is_write (AuthAdminCreateUser u) = True"
| "is_write (Update t row c v) = True"
| "is_write (Insert t row) = True"
| "is_write _ = False"

text \<open>Every call that leaves the process: the gateway, the datastore, the account service.\<close>

fun is_external :: "effect \<Rightarrow> bool" where
  "is_external (ConsoleLog l a) = False"
| "is_external (ConsoleError l a) = False"
| "is_external _ = True"

fun is_datastore :: "effect \<Rightarrow> bool" where
  "is_datastore (SelectSingle t c v) = True"
| "is_datastore (AuthAdminCreateUser u) = True"
| "is_datastore (Update t row c v) = True"
| "is_datastore (Insert t row) = True"
| "is_datastore _ = False"

text \<open>An update of, or an insert into, a given table.\<close>

fun updates :: "string \<Rightarrow> effect \<Rightarrow> bool" where
  "updates t (Update t' row c v) = (t' = t)"
| "updates t _ = False"

fun inserts :: "string \<Rightarrow> effect \<Rightarrow> bool" where
  "inserts t (Insert t' row) = (t' = t)"
| "inserts t _ = False"

subsection \<open>Sequencing with effects and exceptions\<close>

text \<open>A computation yields the effects it performed and either a thrown error or a value.\<close>

type_synonym 'a io = "effect list \<times> (js_error + 'a)"

definition ret :: "'a \<Rightarrow> 'a io" where
  "ret x = ([], Inr x)"

definition throw :: "js_error \<Rightarrow> 'a io" where
  "throw e = ([], Inl e)"

definition emit :: "effect \<Rightarrow> unit io" where
  "emit ev = ([ev], Inr ())"

definition lift :: "js_error + 'a \<Rightarrow> 'a io" where
  "lift r = ([], r)"

definition bind :: "'a io \<Rightarrow> ('a \<Rightarrow> 'b io) \<Rightarrow> 'b io" where
  "bind m f =
     (case m of
        (t, Inl e) \<Rightarrow> (t, Inl e)
      | (t, Inr x) \<Rightarrow> (case f x of (t', r) \<Rightarrow> (t @ t', r)))"

definition try_catch :: "'a io \<Rightarrow> (js_error \<Rightarrow> 'a io) \<Rightarrow> 'a io" where
  "try_catch m h =
     (case m of
        (t, Inl e) \<Rightarrow> (case h e of (t', r) \<Rightarrow> (t @ t', r))
      | (t, Inr x) \<Rightarrow> (t, Inr x))"

section \<open>The handler\<close>

record request =
  "method" :: string
  query :: "(string \<times> string) list"

datatype body = NoBody | Text string | JsonText jsval

record response =
  status :: nat
  headers :: "(string \<times> string) list"
  body :: body

definition corsHeaders :: "(string \<times> string) list" where
  "corsHeaders =
     [(''Access-Control-Allow-Origin'', ''*''),
      (''Access-Control-Allow-Headers'',
       ''authorization, x-client-info, apikey, content-type'')]"

text \<open>Lines 27 to 36: the query parameters and the guard on \<open>tx_ref\<close>.\<close>

definition read_parameters :: "request \<Rightarrow> (jsval \<times> jsval) io" where
  "read_parameters req =
     (let txRef = searchParams_get (query req) ''tx_ref'';
          status = searchParams_get (query req) ''status'';
          transactionId = searchParams_get (query req) ''transaction_id''
      in if \<not> truthy txRef then throw (Error ''Missing transaction reference'')
         else bind (emit (ConsoleLog ''Verifying subscription:''
                      [Val (JObj [(''txRef'', txRef), (''status'', status),
                                  (''transactionId'', transactionId)])]))
                (\<lambda>_. ret (txRef, transactionId)))"

text \<open>Lines 42 to 51: the request to the gateway and the decoding of its answer.\<close>

definition fetch_verification :: "world \<Rightarrow> jsval \<Rightarrow> jsval io" where
  "fetch_verification w transactionId =
     bind (lift (to_string transactionId)) (\<lambda>tid.
     bind (emit (Fetch (''https://api.flutterwave.com/v3/transactions/'' @ tid @ ''/verify'')
                   ''GET''
                   [(''Authorization'',
                     ''Bearer '' @ (case flutterwave_secret_key w of
                                      None \<Rightarrow> ''undefined'' | Some k \<Rightarrow> k)),
                    (''Content-Type'', ''application/json'')])) (\<lambda>_.
     bind (case gateway w of
             FetchRejects e \<Rightarrow> throw e
           | BodyNotJson e \<Rightarrow> throw e
           | JsonBody v \<Rightarrow> ret v) (\<lambda>verificationResult.
     bind (emit (ConsoleLog ''Flutterwave verification result:'' [Val verificationResult]))
       (\<lambda>_. ret verificationResult))))"

text \<open>Lines 53 to 57: \<open>||\<close> evaluates its right operand only when the left one is false.\<close>

definition check_verification :: "jsval \<Rightarrow> jsval io" where
  "check_verification verificationResult =
     bind (lift (get_prop verificationResult ''status'')) (\<lambda>s.
       if s \<noteq> JStr ''success'' then throw (Error ''Payment verification failed'')
       else
         bind (lift (get_prop verificationResult ''data'')) (\<lambda>d.
         bind (lift (get_prop d ''status'')) (\<lambda>ds.
           if ds \<noteq> JStr ''successful'' then throw (Error ''Payment verification failed'')
           else lift (get_prop verificationResult ''data''))))"

text \<open>Lines 60 to 71.\<close>

definition get_subscription :: "world \<Rightarrow> jsval \<Rightarrow> jsval io" where
  "get_subscription w txRef =
     bind (emit (SelectSingle ''subscriptions'' ''flutterwave_tx_ref'' txRef)) (\<lambda>_.
       let subscription = data (single (subscriptions_select w));
           subscriptionError = error (single (subscriptions_select w))
       in if subscriptionError \<noteq> None \<or> \<not> truthy subscription
          then bind (emit (ConsoleError ''Subscription not found:''
                       [Reported subscriptionError]))
                 (\<lambda>_. throw (Error ''Subscription not found''))
          else bind (emit (ConsoleLog ''Found subscription:'' [Val subscription]))
                 (\<lambda>_. ret subscription))"

text \<open>Lines 74 to 77.\<close>

record payment_info =
  customerEmail :: jsval
  customerName :: jsval
  planType :: jsval
  isTrial :: bool

definition extract_info :: "jsval \<Rightarrow> jsval \<Rightarrow> payment_info io" where
  "extract_info paymentData subscription =
     bind (lift (get_prop paymentData ''customer'')) (\<lambda>c1.
     bind (lift (get_prop c1 ''email'')) (\<lambda>email.
     bind (lift (get_prop paymentData ''customer'')) (\<lambda>c2.
     bind (lift (get_prop c2 ''name'')) (\<lambda>name.
     bind (lift (get_prop paymentData ''meta'')) (\<lambda>m1.
     bind (if truthy (opt_prop m1 ''plan_type'') then ret (opt_prop m1 ''plan_type'')
           else lift (get_prop subscription ''plan_type'')) (\<lambda>plan.
     bind (lift (get_prop paymentData ''meta'')) (\<lambda>m2.
       ret \<lparr>customerEmail = email, customerName = name, planType = plan,
            isTrial = (opt_prop m2 ''is_trial'' = JBool True)\<rparr>)))))))"

text \<open>
  Lines 80 to 113. The inner \<^verbatim>\<open>try\<close> also catches the error it throws itself on a
  reported \<open>authError\<close>, and any \<^verbatim>\<open>TypeError\<close> of reading \<open>authData.user.id\<close>.
\<close>

definition new_account :: "payment_info \<Rightarrow> jsval \<Rightarrow> jsval" where
  "new_account info password =
     JObj [(''email'', customerEmail info),
           (''password'', password),
           (''email_confirm'', JBool True),
           (''user_metadata'', JObj [(''full_name'', customerName info)])]"

definition create_account :: "world \<Rightarrow> payment_info \<Rightarrow> jsval \<Rightarrow> jsval io" where
  "create_account w info pendingUserData =
     bind (lift (get_prop pendingUserData ''password'')) (\<lambda>password.
     bind (emit (AuthAdminCreateUser (new_account info password))) (\<lambda>_.
       case create_user w of
         CreateUserRejects e \<Rightarrow> throw e
       | CreateUserReturns authData authError \<Rightarrow>
           if authError \<noteq> None
           then bind (emit (ConsoleError ''User creation error:'' [Reported authError]))
                  (\<lambda>_. throw (Error ''Failed to create user account''))
           else
             bind (lift (get_prop authData ''user'')) (\<lambda>user.
             bind (lift (get_prop user ''id'')) (\<lambda>userId.
             bind (emit (ConsoleLog ''Created user:'' [Val userId]))
               (\<lambda>_. ret userId)))))"

definition resolve_user :: "world \<Rightarrow> jsval \<Rightarrow> jsval \<Rightarrow> payment_info \<Rightarrow> jsval io" where
  "resolve_user w paymentData subscription info =
     bind (lift (get_prop subscription ''user_id'')) (\<lambda>userId.
       if truthy userId then ret userId
       else
         bind (lift (get_prop paymentData ''meta'')) (\<lambda>m.
           let pendingUserData = opt_prop m ''pending_user_data''
           in if truthy pendingUserData
              then try_catch (create_account w info pendingUserData)
                     (\<lambda>e. bind (emit (ConsoleError ''Error creating user:'' [Caught e]))
                            (\<lambda>_. throw (Error ''Failed to create user account'')))
              else throw (Error ''No user data found'')))"

text \<open>Lines 116 to 129: the one write whose reported error is thrown.\<close>

definition subscription_changes :: "jsval \<Rightarrow> jsval \<Rightarrow> string \<Rightarrow> jsval" where
  "subscription_changes userId gatewayId now =
     JObj [(''user_id'', userId),
           (''status'', JStr ''active''),
           (''flutterwave_subscription_id'', gatewayId),
           (''updated_at'', JStr now)]"

definition update_subscription :: "world \<Rightarrow> jsval \<Rightarrow> jsval \<Rightarrow> jsval \<Rightarrow> unit io" where
  "update_subscription w paymentData subscription userId =
     bind (lift (get_prop paymentData ''id'')) (\<lambda>pid.
     bind (lift (opt_toString ''paymentData.id'' pid)) (\<lambda>gatewayId.
     bind (lift (get_prop subscription ''id'')) (\<lambda>subscriptionId.
     bind (emit (Update ''subscriptions''
                   (subscription_changes userId gatewayId (clock_subscription w))
                   ''id'' subscriptionId)) (\<lambda>_.
       case subscriptions_update w of
         Some e \<Rightarrow>
           bind (emit (ConsoleError ''Failed to update subscription:'' [Reported (Some e)]))
             (\<lambda>_. throw (Error ''Failed to update subscription''))
       | None \<Rightarrow> ret ()))))"

text \<open>Lines 132 to 144.\<close>

definition profile_changes :: "payment_info \<Rightarrow> string \<Rightarrow> jsval" where
  "profile_changes info now =
     JObj [(''plan_type'', planType info),
           (''subscription_status'', JStr (if isTrial info then ''trial'' else ''active'')),
           (''updated_at'', JStr now)]"

definition update_profile :: "world \<Rightarrow> payment_info \<Rightarrow> jsval \<Rightarrow> unit io" where
  "update_profile w info userId =
     bind (emit (Update ''profiles'' (profile_changes info (clock_profile w))
                   ''id'' userId)) (\<lambda>_.
       case profiles_update w of
         Some e \<Rightarrow> emit (ConsoleError ''Failed to update profile:'' [Reported (Some e)])
       | None \<Rightarrow> ret ())"

text \<open>Lines 147 to 165.\<close>

definition transaction_record ::
  "jsval \<Rightarrow> jsval \<Rightarrow> jsval \<Rightarrow> jsval \<Rightarrow> jsval \<Rightarrow> payment_info \<Rightarrow> jsval \<Rightarrow> jsval \<Rightarrow> jsval" where
  "transaction_record userId txRef gatewayId amount currency info paymentType feeRate =
     JObj [(''user_id'', userId),
           (''flutterwave_tx_ref'', txRef),
           (''flutterwave_tx_id'', gatewayId),
           (''amount'', amount),
           (''currency'', currency),
           (''status'', JStr ''completed''),
           (''customer_email'', customerEmail info),
           (''customer_name'', customerName info),
           (''payment_method'', paymentType),
           (''plan_fee_rate'', feeRate)]"

definition insert_transaction ::
  "world \<Rightarrow> jsval \<Rightarrow> jsval \<Rightarrow> payment_info \<Rightarrow> jsval \<Rightarrow> unit io" where
  "insert_transaction w txRef paymentData info userId =
     bind (lift (get_prop paymentData ''id'')) (\<lambda>pid.
     bind (lift (opt_toString ''paymentData.id'' pid)) (\<lambda>gatewayId.
     bind (lift (get_prop paymentData ''amount'')) (\<lambda>amount.
     bind (lift (get_prop paymentData ''currency'')) (\<lambda>currency.
     bind (lift (get_prop paymentData ''payment_type'')) (\<lambda>paymentType.
     bind (lift (getPlanFeeRate (planType info))) (\<lambda>feeRate.
     bind (emit (Insert ''transactions''
                   (transaction_record userId txRef gatewayId amount currency info
                      paymentType feeRate))) (\<lambda>_.
       case transactions_insert w of
         Some e \<Rightarrow>
           emit (ConsoleError ''Failed to create transaction record:'' [Reported (Some e)])
       | None \<Rightarrow> ret ())))))))"

text \<open>Lines 168 to 187.\<close>

definition notification_message :: "payment_info \<Rightarrow> js_error + string" where
  "notification_message info =
     (case to_string (planType info) of
        Inl e \<Rightarrow> Inl e
      | Inr plan \<Rightarrow>
          Inr (if isTrial info
               then ''Your '' @ plan @
                    '' plan trial has started! You have 7 days to try all features.''
               else ''Your '' @ plan @
                    '' plan subscription is now active. Welcome to PayLockr!''))"

definition notification_record :: "jsval \<Rightarrow> string \<Rightarrow> payment_info \<Rightarrow> jsval \<Rightarrow> jsval" where
  "notification_record userId msg info subscriptionId =
     JObj [(''user_id'', userId),
           (''type'', JStr ''payment''),
           (''title'', JStr ''Subscription Activated''),
           (''message'', JStr msg),
           (''metadata'',
            JObj [(''plan_type'', planType info),
                  (''subscription_id'', subscriptionId),
                  (''is_trial'', JBool (isTrial info))])]"

definition insert_notification ::
  "world \<Rightarrow> jsval \<Rightarrow> payment_info \<Rightarrow> jsval \<Rightarrow> unit io" where
  "insert_notification w subscription info userId =
     bind (lift (notification_message info)) (\<lambda>msg.
     bind (lift (get_prop subscription ''id'')) (\<lambda>subscriptionId.
     bind (emit (Insert ''notifications''
                   (notification_record userId msg info subscriptionId))) (\<lambda>_.
       case notifications_insert w of
         Some e \<Rightarrow> emit (ConsoleError ''Failed to create notification:'' [Reported (Some e)])
       | None \<Rightarrow> ret ())))"

text \<open>Lines 189 to 203: the body is the value handed to \<^verbatim>\<open>JSON.stringify\<close>.\<close>

definition success_response :: "jsval \<Rightarrow> jsval \<Rightarrow> payment_info \<Rightarrow> response" where
  "success_response subscriptionId userId info =
     \<lparr>status = 200,
      headers = (''Content-Type'', ''application/json'') # corsHeaders,
      body = JsonText
               (JObj [(''success'', JBool True),
                      (''subscription_id'', subscriptionId),
                      (''user_id'', userId),
                      (''plan_type'', planType info),
                      (''is_trial'', JBool (isTrial info)),
                      (''message'',
                       JStr ''Subscription verified and activated successfully'')])\<rparr>"

definition respond_success :: "jsval \<Rightarrow> jsval \<Rightarrow> payment_info \<Rightarrow> response io" where
  "respond_success subscription userId info =
     bind (emit (ConsoleLog ''Subscription verification completed successfully'' [])) (\<lambda>_.
     bind (lift (get_prop subscription ''id'')) (\<lambda>subscriptionId.
       ret (success_response subscriptionId userId info)))"

text \<open>
  The \<^verbatim>\<open>try\<close> block, lines 26 to 204: everything up to the resolved user, then the
  four writes and the response.
\<close>

definition prepare ::
  "request \<Rightarrow> world \<Rightarrow> (jsval \<times> jsval \<times> jsval \<times> payment_info \<times> jsval) io" where
  "prepare req w =
     bind (read_parameters req) (\<lambda>(txRef, transactionId).
     bind (fetch_verification w transactionId) (\<lambda>verificationResult.
     bind (check_verification verificationResult) (\<lambda>paymentData.
     bind (get_subscription w txRef) (\<lambda>subscription.
     bind (extract_info paymentData subscription) (\<lambda>info.
     bind (resolve_user w paymentData subscription info) (\<lambda>userId.
       ret (txRef, paymentData, subscription, info, userId)))))))"

definition reconcile ::
  "world \<Rightarrow> jsval \<Rightarrow> jsval \<Rightarrow> jsval \<Rightarrow> payment_info \<Rightarrow> jsval \<Rightarrow> response io" where
  "reconcile w txRef paymentData subscription info userId =
     bind (update_subscription w paymentData subscription userId) (\<lambda>_.
     bind (update_profile w info userId) (\<lambda>_.
     bind (insert_transaction w txRef paymentData info userId) (\<lambda>_.
     bind (insert_notification w subscription info userId) (\<lambda>_.
       respond_success subscription userId info))))"

definition try_block :: "request \<Rightarrow> world \<Rightarrow> response io" where
  "try_block req w =
     bind (prepare req w) (\<lambda>(txRef, paymentData, subscription, info, userId).
       reconcile w txRef paymentData subscription info userId)"

text \<open>The \<^verbatim>\<open>catch\<close> block, lines 205 to 217.\<close>

definition failure_response :: "js_error \<Rightarrow> response" where
  "failure_response e =
     \<lparr>status = 500,
      headers = (''Content-Type'', ''application/json'') # corsHeaders,
      body = JsonText
               (JObj [(''error'', JStr ''Subscription verification failed''),
                      (''details'', JStr (message e))])\<rparr>"

text \<open>The handler passed to \<^verbatim>\<open>serve\<close>: the effects of the invocation and its response.\<close>

definition handler :: "request \<Rightarrow> world \<Rightarrow> effect list \<times> response" where
  "handler req w =
     (if method req = ''OPTIONS''
      then ([], \<lparr>status = 200, headers = corsHeaders, body = NoBody\<rparr>)
      else if method req \<noteq> ''GET''
      then ([], \<lparr>status = 405, headers = corsHeaders, body = Text ''Method not allowed''\<rparr>)
      else
        (case try_block req w of
           (t, Inr r) \<Rightarrow> (t, r)
         | (t, Inl e) \<Rightarrow>
             (t @ [ConsoleError ''Subscription verification error:'' [Caught e]],
              failure_response e)))"

section \<open>Sample invocations\<close>

text \<open>
  A callback for the reference \<open>sub-ref-1\<close>; a verified payment for the plan
  \<open>professional\<close> without a trial flag, on a subscription row that already has a user
  and names the plan \<open>starter\<close>; and a trial payment for a customer who has no account
  yet.
\<close>

definition sample_request :: request where
  "sample_request =
     \<lparr>method = ''GET'',
      query = [(''status'', ''successful''), (''tx_ref'', ''sub-ref-1''),
               (''transaction_id'', ''4975363'')]\<rparr>"

definition sample_payment :: jsval where
  "sample_payment =
     JObj [(''id'', JNum ''4975363''),
           (''status'', JStr ''successful''),
           (''amount'', JNum ''29''),
           (''currency'', JStr ''USD''),
           (''payment_type'', JStr ''card''),
           (''customer'', JObj [(''email'', JStr ''ada@example.com''),
                                (''name'', JStr ''Ada Obi'')]),
           (''meta'', JObj [(''plan_type'', JStr ''professional'')])]"

definition sample_subscription :: jsval where
  "sample_subscription =
     JObj [(''id'', JStr ''sub-1''),
           (''user_id'', JStr ''user-7''),
           (''plan_type'', JStr ''starter''),
           (''status'', JStr ''pending''),
           (''flutterwave_tx_ref'', JStr ''sub-ref-1'')]"

definition sample_answer :: jsval where
  "sample_answer =
     JObj [(''status'', JStr ''success''),
           (''message'', JStr ''Transaction fetched successfully''),
           (''data'', sample_payment)]"

definition sample_world :: world where
  "sample_world =
     \<lparr>flutterwave_secret_key = Some ''FLWSECK_TEST'',
      gateway = JsonBody sample_answer,
      subscriptions_select = Rows [sample_subscription],
      create_user = CreateUserReturns (JObj [(''user'', JNull)])
                      (Some (ApiError ''not called'')),
      subscriptions_update = None,
      profiles_update = None,
      transactions_insert = None,
      notifications_insert = None,
      clock_subscription = ''2024-05-01T10:00:00.000Z'',
      clock_profile = ''2024-05-01T10:00:00.120Z''\<rparr>"

definition trial_payment :: jsval where
  "trial_payment =
     JObj [(''id'', JNum ''4975364''),
           (''status'', JStr ''successful''),
           (''amount'', JNum ''0''),
           (''currency'', JStr ''USD''),
           (''payment_type'', JStr ''card''),
           (''customer'', JObj [(''email'', JStr ''bola@example.com''),
                                (''name'', JStr ''Bola Ade'')]),
           (''meta'', JObj [(''plan_type'', JStr ''starter''),
                            (''is_trial'', JBool True),
                            (''pending_user_data'',
                             JObj [(''password'', JStr ''s3cret'')])])]"

definition pending_subscription :: jsval where
  "pending_subscription =
     JObj [(''id'', JStr ''sub-2''),
           (''user_id'', JNull),
           (''plan_type'', JStr ''starter''),
           (''status'', JStr ''pending''),
           (''flutterwave_tx_ref'', JStr ''sub-ref-1'')]"

definition trial_answer :: jsval where
  "trial_answer = JObj [(''status'', JStr ''success''), (''data'', trial_payment)]"

definition trial_world :: world where
  "trial_world =
     sample_world
       \<lparr>gateway := JsonBody trial_answer,
        subscriptions_select := Rows [pending_subscription],
        create_user := CreateUserReturns
                         (JObj [(''user'', JObj [(''id'', JStr ''user-9'')])]) None\<rparr>"

text \<open>The gateway's answer for a transaction it does not know.\<close>

definition declined_answer :: jsval where
  "declined_answer =
     JObj [(''status'', JStr ''error''),
           (''message'', JStr ''No transaction was found for this id''),
           (''data'', JNull)]"

text \<open>The gateway's answer for a transaction that has not completed.\<close>

definition pending_answer :: jsval where
  "pending_answer =
     JObj [(''status'', JStr ''success''),
           (''message'', JStr ''Transaction fetched successfully''),
           (''data'', JObj [(''id'', JNum ''4975363''), (''status'', JStr ''pending'')])]"

text \<open>An answer with the overall status \<open>success\<close> and no transaction.\<close>

definition success_without_data :: jsval where
  "success_without_data = JObj [(''status'', JStr ''success''), (''data'', JNull)]"

text \<open>
  A verified payment whose plan type is an object with a key \<open>toString\<close>, for the
  subscription that already has a user, while the profile update reports an error.
\<close>

definition unprintable_plan_world :: world where
  "unprintable_plan_world =
     sample_world
       \<lparr>gateway := JsonBody
          (JObj [(''status'', JStr ''success''),
                 (''data'',
                  JObj [(''id'', JNum ''4975366''),
                        (''status'', JStr ''successful''),
                        (''amount'', JNum ''29''),
                        (''currency'', JStr ''USD''),
                        (''payment_type'', JStr ''card''),
                        (''customer'', JObj [(''email'', JStr ''ada@example.com''),
                                             (''name'', JStr ''Ada Obi'')]),
                        (''meta'',
                         JObj [(''plan_type'', JObj [(''toString'', JNum ''1'')])])])]),
        profiles_update := Some (ApiError ''row not found'')\<rparr>"

text \<open>
  Variations: the subscription update fails after the account was created; the three
  later writes all report errors; the row has no user and the payment carries no
  account data; the payment names a plan that is a member of every object.
\<close>

definition failing_update_world :: world where
  "failing_update_world =
     trial_world\<lparr>subscriptions_update := Some (ApiError ''connection timed out'')\<rparr>"

definition noisy_world :: world where
  "noisy_world =
     trial_world
       \<lparr>profiles_update := Some (ApiError ''row not found''),
        transactions_insert := Some (ApiError ''duplicate key''),
        notifications_insert := Some (ApiError ''permission denied'')\<rparr>"

definition no_account_world :: world where
  "no_account_world = sample_world\<lparr>subscriptions_select := Rows [pending_subscription]\<rparr>"

definition inherited_plan_world :: world where
  "inherited_plan_world =
     sample_world
       \<lparr>gateway := JsonBody
          (JObj [(''status'', JStr ''success''),
                 (''data'',
                  JObj [(''id'', JNum ''4975365''),
                        (''status'', JStr ''successful''),
                        (''amount'', JNum ''29''),
                        (''currency'', JStr ''USD''),
                        (''payment_type'', JStr ''card''),
                        (''customer'', JObj [(''email'', JStr ''ada@example.com''),
                                             (''name'', JStr ''Ada Obi'')]),
                        (''meta'', JObj [(''plan_type'', JStr ''constructor'')])])])\<rparr>"

section \<open>Reasoning about sequenced computations\<close>

lemma bind_ret: "bind (ret x) f = f x"
  by (simp add: bind_def ret_def split: prod.splits)

lemma bind_throw: "bind (throw e) f = throw e"
  by (simp add: bind_def throw_def)

lemma bind_lift_Inr: "bind (lift (Inr x)) f = f x"
  by (simp add: bind_def lift_def split: prod.splits)

lemma bind_lift_Inl: "bind (lift (Inl e)) f = throw e"
  by (simp add: bind_def lift_def throw_def)

lemma bind_emit: "bind (emit ev) f = (ev # fst (f ()), snd (f ()))"
  by (simp add: bind_def emit_def split: prod.splits)

lemma io_simps:
  "fst (lift r) = []" "snd (lift r) = r"
  "fst (emit ev) = [ev]" "snd (emit ev) = Inr ()"
  "fst (ret x) = []" "snd (ret x) = Inr x"
  "fst (throw e) = []" "snd (throw e) = Inl e"
  by (simp_all add: lift_def emit_def ret_def throw_def)

lemma fst_bind:
  "fst (bind m f) = fst m @ (case snd m of Inl e \<Rightarrow> [] | Inr x \<Rightarrow> fst (f x))"
  by (cases m) (simp add: bind_def split: sum.splits prod.splits)

lemma snd_bind:
  "snd (bind m f) = (case snd m of Inl e \<Rightarrow> Inl e | Inr x \<Rightarrow> snd (f x))"
  by (cases m) (simp add: bind_def split: sum.splits prod.splits)

lemma fst_try_catch:
  "fst (try_catch m h) = fst m @ (case snd m of Inl e \<Rightarrow> fst (h e) | Inr x \<Rightarrow> [])"
  by (cases m) (simp add: try_catch_def split: sum.splits prod.splits)

section \<open>Properties of the language operations\<close>

lemma get_prop_Inr: "get_prop v k = Inr x \<longleftrightarrow> \<not> nullish v \<and> x = own v k"
  by (cases v) auto

lemma get_prop_not_nullish: "\<not> nullish v \<Longrightarrow> get_prop v k = Inr (own v k)"
  by (cases v) auto

lemma truthy_not_nullish: "truthy v \<Longrightarrow> \<not> nullish v"
  by (cases v) auto

lemma own_JStr_not_nullish: "own v k = JStr s \<Longrightarrow> \<not> nullish v"
  by (cases v) auto

lemma to_string_param:
  "to_string (searchParams_get q k) = Inr (case map_of q k of Some v \<Rightarrow> v | None \<Rightarrow> ''null'')"
  by (simp add: searchParams_get_def split: option.splits)

lemma single_ok:
  "error (single s) = None \<longleftrightarrow> (\<exists>r. s = Rows [r])"
  by (cases s rule: single.cases) auto

lemma single_fails:
  assumes "(\<exists>e. s = QueryFailed e) \<or> (\<exists>rs. s = Rows rs \<and> length rs \<noteq> 1)"
  shows "error (single s) \<noteq> None"
  using assms by (cases s rule: single.cases) auto

subsection \<open>The fee table and the plan type as text\<close>

text \<open>
  For a string, \<^verbatim>\<open>getPlanFeeRate\<close> returns the rate of the three named plans, the
  member of \<^verbatim>\<open>Object.prototype\<close> of that name if there is one, and 0.05 otherwise. It
  throws exactly when the plan type has no string form, and so does the message of the
  notification.
\<close>

lemma getPlanFeeRate_table:
  "getPlanFeeRate (JStr s) =
     Inr (if s = ''starter'' then JNum ''0.05''
          else if s = ''professional'' then JNum ''0.03''
          else if s = ''enterprise'' then JNum ''0.01''
          else (case map_of object_prototype s of Some f \<Rightarrow> f | None \<Rightarrow> JNum ''0.05''))"
  by (simp add: getPlanFeeRate_def get_computed_def feeRates_def object_prototype_def)

lemma getPlanFeeRate_named:
  "getPlanFeeRate (JStr ''starter'') = Inr (JNum ''0.05'')"
  "getPlanFeeRate (JStr ''professional'') = Inr (JNum ''0.03'')"
  "getPlanFeeRate (JStr ''enterprise'') = Inr (JNum ''0.01'')"
  "getPlanFeeRate (JStr ''gold'') = Inr (JNum ''0.05'')"
  by (simp_all add: getPlanFeeRate_table object_prototype_def)

lemma getPlanFeeRate_default:
  assumes "s \<noteq> ''starter''" and "s \<noteq> ''professional''" and "s \<noteq> ''enterprise''"
    and "map_of object_prototype s = None"
  shows "getPlanFeeRate (JStr s) = Inr (JNum ''0.05'')"
  using assms by (simp add: getPlanFeeRate_table)

lemma getPlanFeeRate_Inl: "getPlanFeeRate p = Inl e \<longleftrightarrow> to_string p = Inl e"
  by (simp add: getPlanFeeRate_def get_computed_def split: sum.splits option.splits)

lemma notification_message_Inl:
  "notification_message i = Inl e \<longleftrightarrow> to_string (planType i) = Inl e"
  by (simp add: notification_message_def split: sum.splits)

lemma notification_message_text:
  assumes "notification_message i = Inr msg"
  shows "\<exists>text. to_string (planType i) = Inr text \<and>
           msg = ''Your '' @ text @
                 (if isTrial i
                  then '' plan trial has started! You have 7 days to try all features.''
                  else '' plan subscription is now active. Welcome to PayLockr!'')"
  using assms by (auto simp: notification_message_def split: sum.splits)

lemma conversions_succeed:
  assumes "to_string (planType i) = Inr k"
  obtains fee msg where "getPlanFeeRate (planType i) = Inr fee"
    and "notification_message i = Inr msg"
proof -
  from assms have "\<exists>fee. getPlanFeeRate (planType i) = Inr fee"
    by (cases "getPlanFeeRate (planType i)") (simp_all add: getPlanFeeRate_Inl)
  moreover from assms have "\<exists>msg. notification_message i = Inr msg"
    by (cases "notification_message i") (simp_all add: notification_message_Inl)
  ultimately show thesis using that by blast
qed

section \<open>The steps before the writes\<close>

text \<open>
  What each step returns and which effects it has. Only the account creation writes
  before the subscription update.
\<close>

lemma write_is_external: "filter is_external t = [] \<Longrightarrow> filter is_write t = []"
proof (induction t)
  case Nil
  then show ?case by simp
next
  case (Cons a t)
  then show ?case by (cases a) (auto split: if_splits)
qed

lemma write_is_datastore: "filter is_datastore t = [] \<Longrightarrow> filter is_write t = []"
proof (induction t)
  case Nil
  then show ?case by simp
next
  case (Cons a t)
  then show ?case by (cases a) (auto split: if_splits)
qed

lemma updates_is_write: "updates t x \<Longrightarrow> is_write x"
  by (cases x) auto

lemma inserts_is_write: "inserts t x \<Longrightarrow> is_write x"
  by (cases x) auto

lemma read_parameters_missing:
  "\<not> truthy (searchParams_get (query req) ''tx_ref'') \<Longrightarrow>
   read_parameters req = throw (Error ''Missing transaction reference'')"
  by (simp add: read_parameters_def Let_def)

lemma snd_read_parameters:
  "snd (read_parameters req) =
     (if truthy (searchParams_get (query req) ''tx_ref'')
      then Inr (searchParams_get (query req) ''tx_ref'',
                searchParams_get (query req) ''transaction_id'')
      else Inl (Error ''Missing transaction reference''))"
  by (simp add: read_parameters_def Let_def snd_bind io_simps)

lemma fst_read_parameters:
  "filter is_external (fst (read_parameters req)) = []"
  by (simp add: read_parameters_def Let_def fst_bind io_simps)

lemma fst_read_parameters_datastore:
  "filter is_datastore (fst (read_parameters req)) = []"
  by (simp add: read_parameters_def Let_def fst_bind io_simps)

lemma snd_fetch_verification:
  "snd (fetch_verification w (searchParams_get q k)) =
     (case gateway w of FetchRejects e \<Rightarrow> Inl e | BodyNotJson e \<Rightarrow> Inl e | JsonBody v \<Rightarrow> Inr v)"
  by (simp add: fetch_verification_def to_string_param snd_bind io_simps
           split: gateway_outcome.splits)

lemma fst_fetch_verification:
  "filter is_datastore (fst (fetch_verification w tid)) = []"
  by (simp add: fetch_verification_def fst_bind io_simps
           split: gateway_outcome.splits sum.splits)

lemma fst_check_verification: "fst (check_verification vr) = []"
  by (simp add: check_verification_def fst_bind io_simps split: sum.splits)

lemma snd_check_verification_Inr:
  "snd (check_verification vr) = Inr pd \<longleftrightarrow>
     own vr ''status'' = JStr ''success'' \<and> pd = own vr ''data'' \<and>
     own pd ''status'' = JStr ''successful''"
  by (cases vr; cases "own vr ''data''")
     (auto simp: check_verification_def snd_bind io_simps split: sum.splits)

lemma check_verification_fails:
  assumes "(\<exists>s. get_prop vr ''status'' = Inr s \<and> s \<noteq> JStr ''success'') \<or>
           (\<exists>d ds. get_prop vr ''data'' = Inr d \<and> get_prop d ''status'' = Inr ds \<and>
                    ds \<noteq> JStr ''successful'')"
  shows "snd (check_verification vr) = Inl (Error ''Payment verification failed'')"
  using assms
  by (auto simp: check_verification_def snd_bind io_simps get_prop_Inr get_prop_not_nullish
           split: sum.splits)

lemma snd_get_subscription:
  "snd (get_subscription w t) =
     (if error (single (subscriptions_select w)) \<noteq> None \<or>
         \<not> truthy (data (single (subscriptions_select w)))
      then Inl (Error ''Subscription not found'')
      else Inr (data (single (subscriptions_select w))))"
  by (simp add: get_subscription_def Let_def snd_bind io_simps)

lemma fst_get_subscription:
  "filter is_write (fst (get_subscription w t)) = []"
  by (simp add: get_subscription_def Let_def fst_bind io_simps)

lemma fst_extract_info: "fst (extract_info pd sub) = []"
  by (simp add: extract_info_def fst_bind io_simps split: sum.splits)

lemma snd_extract_info_Inr:
  "snd (extract_info pd sub) = Inr i \<Longrightarrow>
     i = \<lparr>customerEmail = own (own pd ''customer'') ''email'',
          customerName = own (own pd ''customer'') ''name'',
          planType = (if truthy (opt_prop (own pd ''meta'') ''plan_type'')
                      then opt_prop (own pd ''meta'') ''plan_type''
                      else own sub ''plan_type''),
          isTrial = (opt_prop (own pd ''meta'') ''is_trial'' = JBool True)\<rparr>"
  by (auto simp: extract_info_def snd_bind io_simps get_prop_Inr split: sum.splits if_splits)

lemma fst_create_account:
  "\<not> nullish p \<Longrightarrow>
   filter is_write (fst (create_account w i p)) =
     [AuthAdminCreateUser (new_account i (own p ''password''))]"
  by (simp add: create_account_def fst_bind io_simps get_prop_not_nullish
           split: sum.splits create_outcome.splits)

lemma fst_resolve_user:
  "filter is_write (fst (resolve_user w pd sub i)) = [] \<or>
   (\<exists>u. filter is_write (fst (resolve_user w pd sub i)) = [AuthAdminCreateUser u])"
  by (simp add: resolve_user_def Let_def fst_bind fst_try_catch io_simps fst_create_account
                truthy_not_nullish
           split: sum.splits)

lemmas early_writes =
  fst_read_parameters [THEN write_is_external]
  fst_fetch_verification [THEN write_is_datastore]
  fst_check_verification fst_get_subscription fst_extract_info

lemma fst_prepare:
  "filter is_write (fst (prepare req w)) = [] \<or>
   (\<exists>u. filter is_write (fst (prepare req w)) = [AuthAdminCreateUser u])"
proof -
  have "\<And>pd sub i.
          filter is_write (fst (resolve_user w pd sub i)) = [] \<or>
          (\<exists>u. filter is_write (fst (resolve_user w pd sub i)) = [AuthAdminCreateUser u])"
    by (rule fst_resolve_user)
  then show ?thesis
    by (simp add: prepare_def fst_bind io_simps early_writes split: sum.splits prod.splits)
qed

lemma snd_prepare_Inr:
  assumes "snd (prepare req w) = Inr (t, pd, sub, i, u)"
  shows "t = searchParams_get (query req) ''tx_ref''"
    and "truthy t"
    and "\<exists>vr. gateway w = JsonBody vr \<and> own vr ''status'' = JStr ''success'' \<and>
              pd = own vr ''data'' \<and> own pd ''status'' = JStr ''successful''"
    and "subscriptions_select w = Rows [sub]"
    and "truthy sub"
    and "i = \<lparr>customerEmail = own (own pd ''customer'') ''email'',
              customerName = own (own pd ''customer'') ''name'',
              planType = (if truthy (opt_prop (own pd ''meta'') ''plan_type'')
                          then opt_prop (own pd ''meta'') ''plan_type''
                          else own sub ''plan_type''),
              isTrial = (opt_prop (own pd ''meta'') ''is_trial'' = JBool True)\<rparr>"
proof -
  from assms obtain tid vr where
    r: "snd (read_parameters req) = Inr (t, tid)" and
    f: "snd (fetch_verification w tid) = Inr vr" and
    c: "snd (check_verification vr) = Inr pd" and
    g: "snd (get_subscription w t) = Inr sub" and
    x: "snd (extract_info pd sub) = Inr i"
    by (auto simp: prepare_def snd_bind io_simps split: sum.splits prod.splits)
  from r show "t = searchParams_get (query req) ''tx_ref''" and "truthy t"
    by (auto simp: snd_read_parameters split: if_splits)
  from r have "tid = searchParams_get (query req) ''transaction_id''"
    by (auto simp: snd_read_parameters split: if_splits)
  with f have "gateway w = JsonBody vr"
    by (auto simp: snd_fetch_verification split: gateway_outcome.splits)
  with c show "\<exists>vr. gateway w = JsonBody vr \<and> own vr ''status'' = JStr ''success'' \<and>
              pd = own vr ''data'' \<and> own pd ''status'' = JStr ''successful''"
    by (auto simp: snd_check_verification_Inr)
  from g have e: "error (single (subscriptions_select w)) = None"
    and d: "sub = data (single (subscriptions_select w))" and "truthy sub"
    by (auto simp: snd_get_subscription split: if_splits)
  then show "truthy sub" by simp
  from e obtain r where "subscriptions_select w = Rows [r]"
    by (auto simp: single_ok)
  with d show "subscriptions_select w = Rows [sub]" by simp
  from x show "i = \<lparr>customerEmail = own (own pd ''customer'') ''email'',
              customerName = own (own pd ''customer'') ''name'',
              planType = (if truthy (opt_prop (own pd ''meta'') ''plan_type'')
                          then opt_prop (own pd ''meta'') ''plan_type''
                          else own sub ''plan_type''),
              isTrial = (opt_prop (own pd ''meta'') ''is_trial'' = JBool True)\<rparr>"
    by (rule snd_extract_info_Inr)
qed

lemma write_in_prepare:
  assumes "x \<in> set (fst (prepare req w))" and "is_write x"
  shows "\<exists>u. x = AuthAdminCreateUser u"
proof -
  from assms have m: "x \<in> set (filter is_write (fst (prepare req w)))"
    by simp
  from fst_prepare [of req w] show ?thesis
  proof (elim disjE exE)
    assume e: "filter is_write (fst (prepare req w)) = []"
    from m show ?thesis unfolding e by simp
  next
    fix u
    assume e: "filter is_write (fst (prepare req w)) = [AuthAdminCreateUser u]"
    from m show ?thesis unfolding e by simp
  qed
qed

lemma prepare_no_update: "Update t row c v \<notin> set (fst (prepare req w))"
  using write_in_prepare [of "Update t row c v" req w] by auto

lemma filter_updates_prepare: "filter (updates t) (fst (prepare req w)) = []"
proof -
  have "\<not> updates t x" if "x \<in> set (fst (prepare req w))" for x
  proof
    assume u: "updates t x"
    with that obtain a where "x = AuthAdminCreateUser a"
      using write_in_prepare updates_is_write by blast
    with u show False by simp
  qed
  then show ?thesis by (simp add: filter_empty_conv)
qed

lemma filter_inserts_prepare: "filter (inserts t) (fst (prepare req w)) = []"
proof -
  have "\<not> inserts t x" if "x \<in> set (fst (prepare req w))" for x
  proof
    assume u: "inserts t x"
    with that obtain a where "x = AuthAdminCreateUser a"
      using write_in_prepare inserts_is_write by blast
    with u show False by simp
  qed
  then show ?thesis by (simp add: filter_empty_conv)
qed

lemma prepare_check_fails:
  assumes "truthy (searchParams_get (query req) ''tx_ref'')"
    and "gateway w = JsonBody vr"
    and "snd (check_verification vr) = Inl e"
  shows "snd (prepare req w) = Inl e"
    and "filter is_datastore (fst (prepare req w)) = []"
  using assms
  by (simp_all add: prepare_def fst_bind snd_bind snd_read_parameters snd_fetch_verification
                    fst_read_parameters_datastore fst_fetch_verification
                    fst_check_verification)

lemma prepare_lookup_fails:
  assumes "truthy (searchParams_get (query req) ''tx_ref'')"
    and "gateway w = JsonBody vr"
    and "snd (check_verification vr) = Inr pd"
    and "error (single (subscriptions_select w)) \<noteq> None \<or>
         \<not> truthy (data (single (subscriptions_select w)))"
  shows "snd (prepare req w) = Inl (Error ''Subscription not found'')"
    and "filter is_write (fst (prepare req w)) = []"
  using assms
  by (simp_all add: prepare_def fst_bind snd_bind snd_read_parameters snd_fetch_verification
                    snd_get_subscription early_writes)

section \<open>The writes\<close>

text \<open>
  Each write in closed form, then the three ways the sequence of writes can go: the
  subscription update reports an error; the plan type has no string form; all four
  writes are attempted.
\<close>

lemma update_subscription_eq:
  assumes "\<not> nullish pd" and "\<not> nullish sub"
  shows "update_subscription w pd sub u =
     (case opt_toString ''paymentData.id'' (own pd ''id'') of
        Inl e \<Rightarrow> ([], Inl e)
      | Inr g \<Rightarrow>
          (Update ''subscriptions'' (subscription_changes u g (clock_subscription w))
             ''id'' (own sub ''id'') #
           (case subscriptions_update w of
              Some e \<Rightarrow> [ConsoleError ''Failed to update subscription:'' [Reported (Some e)]]
            | None \<Rightarrow> []),
           (case subscriptions_update w of
              Some e \<Rightarrow> Inl (Error ''Failed to update subscription'')
            | None \<Rightarrow> Inr ())))"
  using assms
  by (simp add: update_subscription_def get_prop_not_nullish bind_lift_Inr bind_lift_Inl
                bind_emit bind_ret bind_throw io_simps throw_def ret_def
           split: sum.splits option.splits)

lemma update_profile_eq:
  "update_profile w i u =
     (Update ''profiles'' (profile_changes i (clock_profile w)) ''id'' u #
      (case profiles_update w of
         Some e \<Rightarrow> [ConsoleError ''Failed to update profile:'' [Reported (Some e)]]
       | None \<Rightarrow> []),
      Inr ())"
  by (simp add: update_profile_def bind_emit io_simps split: option.splits)

lemma insert_transaction_eq:
  assumes "\<not> nullish pd" and "opt_toString ''paymentData.id'' (own pd ''id'') = Inr g"
  shows "insert_transaction w t pd i u =
     (case getPlanFeeRate (planType i) of
        Inl e \<Rightarrow> ([], Inl e)
      | Inr fee \<Rightarrow>
          (Insert ''transactions''
             (transaction_record u t g (own pd ''amount'') (own pd ''currency'') i
                (own pd ''payment_type'') fee) #
           (case transactions_insert w of
              Some e \<Rightarrow> [ConsoleError ''Failed to create transaction record:''
                           [Reported (Some e)]]
            | None \<Rightarrow> []),
           Inr ()))"
  using assms
  by (simp add: insert_transaction_def get_prop_not_nullish bind_lift_Inr bind_lift_Inl
                bind_emit io_simps throw_def
           split: sum.splits option.splits)

lemma insert_notification_eq:
  assumes "\<not> nullish sub"
  shows "insert_notification w sub i u =
     (case notification_message i of
        Inl e \<Rightarrow> ([], Inl e)
      | Inr msg \<Rightarrow>
          (Insert ''notifications'' (notification_record u msg i (own sub ''id'')) #
           (case notifications_insert w of
              Some e \<Rightarrow> [ConsoleError ''Failed to create notification:'' [Reported (Some e)]]
            | None \<Rightarrow> []),
           Inr ()))"
  using assms
  by (simp add: insert_notification_def get_prop_not_nullish bind_lift_Inr bind_lift_Inl
                bind_emit io_simps throw_def
           split: sum.splits option.splits)

lemma respond_success_eq:
  assumes "\<not> nullish sub"
  shows "respond_success sub u i =
     ([ConsoleLog ''Subscription verification completed successfully'' []],
      Inr (success_response (own sub ''id'') u i))"
  using assms
  by (simp add: respond_success_def get_prop_not_nullish bind_lift_Inr bind_emit io_simps
                bind_ret ret_def)

lemma reconcile_update_fails:
  assumes "\<not> nullish pd" and "\<not> nullish sub" and "subscriptions_update w = Some e"
  shows "reconcile w t pd sub i u =
     (case opt_toString ''paymentData.id'' (own pd ''id'') of
        Inl e' \<Rightarrow> ([], Inl e')
      | Inr g \<Rightarrow>
          ([Update ''subscriptions'' (subscription_changes u g (clock_subscription w))
              ''id'' (own sub ''id''),
            ConsoleError ''Failed to update subscription:'' [Reported (Some e)]],
           Inl (Error ''Failed to update subscription'')))"
  using assms
  by (simp add: reconcile_def update_subscription_eq bind_def split: sum.splits)

lemma reconcile_conversion_fails:
  assumes "\<not> nullish pd" and "\<not> nullish sub" and "subscriptions_update w = None"
    and "opt_toString ''paymentData.id'' (own pd ''id'') = Inr g"
    and "to_string (planType i) = Inl e"
  shows "reconcile w t pd sub i u =
     (Update ''subscriptions'' (subscription_changes u g (clock_subscription w))
        ''id'' (own sub ''id'') #
      Update ''profiles'' (profile_changes i (clock_profile w)) ''id'' u #
      (case profiles_update w of
         Some e \<Rightarrow> [ConsoleError ''Failed to update profile:'' [Reported (Some e)]]
       | None \<Rightarrow> []),
      Inl e)"
proof -
  from assms(5) have "getPlanFeeRate (planType i) = Inl e"
    by (simp add: getPlanFeeRate_Inl)
  with assms(1-4) show ?thesis
    by (simp add: reconcile_def update_subscription_eq update_profile_eq
                  insert_transaction_eq bind_def)
qed

lemma reconcile_completes:
  assumes "\<not> nullish pd" and "\<not> nullish sub" and "subscriptions_update w = None"
    and "opt_toString ''paymentData.id'' (own pd ''id'') = Inr g"
    and "getPlanFeeRate (planType i) = Inr fee"
    and "notification_message i = Inr msg"
  shows "reconcile w t pd sub i u =
     (Update ''subscriptions'' (subscription_changes u g (clock_subscription w))
        ''id'' (own sub ''id'') #
      Update ''profiles'' (profile_changes i (clock_profile w)) ''id'' u #
      (case profiles_update w of
         Some e \<Rightarrow> [ConsoleError ''Failed to update profile:'' [Reported (Some e)]]
       | None \<Rightarrow> []) @
      Insert ''transactions''
        (transaction_record u t g (own pd ''amount'') (own pd ''currency'') i
           (own pd ''payment_type'') fee) #
      (case transactions_insert w of
         Some e \<Rightarrow> [ConsoleError ''Failed to create transaction record:'' [Reported (Some e)]]
       | None \<Rightarrow> []) @
      Insert ''notifications'' (notification_record u msg i (own sub ''id'')) #
      (case notifications_insert w of
         Some e \<Rightarrow> [ConsoleError ''Failed to create notification:'' [Reported (Some e)]]
       | None \<Rightarrow> []) @
      [ConsoleLog ''Subscription verification completed successfully'' []],
      Inr (success_response (own sub ''id'') u i))"
  using assms
  by (simp add: reconcile_def update_subscription_eq update_profile_eq
                insert_transaction_eq insert_notification_eq respond_success_eq bind_def)

lemma reconcile_Inr:
  assumes n: "\<not> nullish pd" "\<not> nullish sub"
    and r: "snd (reconcile w t pd sub i u) = Inr r"
  obtains g fee msg where
    "opt_toString ''paymentData.id'' (own pd ''id'') = Inr g"
    "subscriptions_update w = None"
    "getPlanFeeRate (planType i) = Inr fee"
    "notification_message i = Inr msg"
proof (cases "opt_toString ''paymentData.id'' (own pd ''id'')")
  case (Inl e)
  with n have "snd (reconcile w t pd sub i u) = Inl e"
    by (simp add: reconcile_def update_subscription_eq bind_def)
  with r show thesis by simp
next
  case g: (Inr g)
  show thesis
  proof (cases "subscriptions_update w")
    case (Some e)
    from r show thesis
      by (simp add: reconcile_update_fails [OF n Some] g)
  next
    case None
    show thesis
    proof (cases "to_string (planType i)")
      case (Inl e)
      from r show thesis
        by (simp add: reconcile_conversion_fails [OF n None g Inl])
    next
      case (Inr k)
      then obtain fee msg where "getPlanFeeRate (planType i) = Inr fee"
        and "notification_message i = Inr msg"
        by (rule conversions_succeed)
      with g None that show thesis by blast
    qed
  qed
qed

lemma filter_updates_log [simp]:
  "filter (updates t) (case x of Some e \<Rightarrow> [ConsoleError l [Reported (Some e)]] | None \<Rightarrow> []) = []"
  by (cases x) simp_all

lemma filter_inserts_log [simp]:
  "filter (inserts t) (case x of Some e \<Rightarrow> [ConsoleError l [Reported (Some e)]] | None \<Rightarrow> []) = []"
  by (cases x) simp_all

lemma filter_external_log [simp]:
  "filter is_external
     (case x of Some e \<Rightarrow> [ConsoleError l [Reported (Some e)]] | None \<Rightarrow> []) = []"
  by (cases x) simp_all

section \<open>Whole invocations\<close>

lemma fst_handler:
  "fst (handler req w) =
     (if method req = ''GET''
      then fst (try_block req w) @
           (case snd (try_block req w) of
              Inl e \<Rightarrow> [ConsoleError ''Subscription verification error:'' [Caught e]]
            | Inr r \<Rightarrow> [])
      else [])"
  by (cases "try_block req w") (simp add: handler_def split: sum.splits)

lemma snd_handler_GET:
  "method req = ''GET'' \<Longrightarrow>
   snd (handler req w) =
     (case snd (try_block req w) of Inl e \<Rightarrow> failure_response e | Inr r \<Rightarrow> r)"
  by (cases "try_block req w") (simp add: handler_def split: sum.splits)

lemma try_block_Inl:
  assumes "snd (prepare req w) = Inl e"
  shows "try_block req w = (fst (prepare req w), Inl e)"
  using assms by (cases "prepare req w") (simp add: try_block_def bind_def)

lemma try_block_Inr:
  assumes "snd (prepare req w) = Inr (t, pd, sub, i, u)"
  shows "try_block req w =
           (fst (prepare req w) @ fst (reconcile w t pd sub i u),
            snd (reconcile w t pd sub i u))"
  using assms
  by (cases "prepare req w"; cases "reconcile w t pd sub i u") (simp add: try_block_def bind_def)

lemma try_block_missing:
  "\<not> truthy (searchParams_get (query req) ''tx_ref'') \<Longrightarrow>
   try_block req w = ([], Inl (Error ''Missing transaction reference''))"
  by (simp add: try_block_def prepare_def read_parameters_missing bind_throw)
     (simp add: throw_def)

lemma try_block_success:
  assumes "snd (try_block req w) = Inr r"
  shows "\<exists>sid uid i. r = success_response sid uid i"
proof -
  from assms obtain sub u i where "snd (respond_success sub u i) = Inr r"
    by (auto simp: try_block_def reconcile_def snd_bind split: sum.splits prod.splits)
  then show ?thesis
    by (auto simp: respond_success_def snd_bind io_simps split: sum.splits)
qed

lemma own_failure_body: "body (failure_response e) = JsonText b \<Longrightarrow> own b ''success'' = JUndefined"
  by (auto simp: failure_response_def)

lemma reach_update:
  assumes "Update ''subscriptions'' row c v \<in> set (fst (handler req w))"
  obtains t pd sub i u g where
    "method req = ''GET''"
    "snd (prepare req w) = Inr (t, pd, sub, i, u)"
    "\<not> nullish pd" "\<not> nullish sub"
    "opt_toString ''paymentData.id'' (own pd ''id'') = Inr g"
    "row = subscription_changes u g (clock_subscription w)" "c = ''id''" "v = own sub ''id''"
proof -
  have g: "method req = ''GET''"
    using assms by (auto simp: fst_handler split: if_splits)
  with assms have tb: "Update ''subscriptions'' row c v \<in> set (fst (try_block req w))"
    by (auto simp: fst_handler split: sum.splits)
  show thesis
  proof (cases "snd (prepare req w)")
    case (Inl e)
    with tb show thesis
      by (simp add: try_block_Inl prepare_no_update)
  next
    case (Inr ctx)
    obtain t pd sub i u where ctx: "ctx = (t, pd, sub, i, u)"
      by (cases ctx) auto
    note p = Inr [unfolded ctx]
    from tb have r: "Update ''subscriptions'' row c v \<in> set (fst (reconcile w t pd sub i u))"
      by (simp add: try_block_Inr [OF p] prepare_no_update)
    from snd_prepare_Inr(3,5) [OF p] have n: "\<not> nullish pd" "\<not> nullish sub"
      by (auto simp: own_JStr_not_nullish truthy_not_nullish)
    show thesis
    proof (cases "opt_toString ''paymentData.id'' (own pd ''id'')")
      case (Inl e)
      with n have "fst (reconcile w t pd sub i u) = []"
        by (simp add: reconcile_def update_subscription_eq bind_def)
      with r show ?thesis by simp
    next
      case g': (Inr g)
      have "row = subscription_changes u g (clock_subscription w) \<and> c = ''id'' \<and>
            v = own sub ''id''"
      proof (cases "subscriptions_update w")
        case None
        show ?thesis
        proof (cases "to_string (planType i)")
          case (Inl e)
          from r show ?thesis
            by (auto simp: reconcile_conversion_fails [OF n None g' Inl] split: option.splits)
        next
          case (Inr k)
          then obtain fee msg where fm: "getPlanFeeRate (planType i) = Inr fee"
            "notification_message i = Inr msg"
            by (metis getPlanFeeRate_Inl notification_message_Inl sum.exhaust sum.distinct(1))
          from r show ?thesis
            unfolding reconcile_completes [OF n None g' fm]
            by (auto split: option.splits)
        qed
      next
        case (Some e)
        from r show ?thesis
          by (simp add: reconcile_update_fails [OF n Some] g')
      qed
      with that g p n g' show thesis by blast
    qed
  qed
qed

lemma successful_run:
  assumes "body (snd (handler req w)) = JsonText b" and "own b ''success'' = JBool True"
  obtains t pd sub i u g fee msg where
    "method req = ''GET''"
    "snd (prepare req w) = Inr (t, pd, sub, i, u)"
    "\<not> nullish pd" "\<not> nullish sub"
    "opt_toString ''paymentData.id'' (own pd ''id'') = Inr g"
    "subscriptions_update w = None"
    "getPlanFeeRate (planType i) = Inr fee"
    "notification_message i = Inr msg"
proof -
  have m: "method req = ''GET''"
    using assms(1) by (auto simp: handler_def split: if_splits)
  show thesis
  proof (cases "snd (prepare req w)")
    case (Inl e)
    with m have "snd (handler req w) = failure_response e"
      by (simp add: snd_handler_GET try_block_Inl)
    with assms own_failure_body [of e b] show thesis by simp
  next
    case (Inr ctx)
    obtain t pd sub i u where ctx: "ctx = (t, pd, sub, i, u)"
      by (cases ctx) auto
    note p = Inr [unfolded ctx]
    from snd_prepare_Inr(3,5) [OF p] have n: "\<not> nullish pd" "\<not> nullish sub"
      by (auto simp: own_JStr_not_nullish truthy_not_nullish)
    show thesis
    proof (cases "snd (reconcile w t pd sub i u)")
      case (Inl e)
      with m have "snd (handler req w) = failure_response e"
        by (simp add: snd_handler_GET try_block_Inr [OF p])
      with assms own_failure_body [of e b] show thesis by simp
    next
      case (Inr r)
      with n obtain g fee msg where
        "opt_toString ''paymentData.id'' (own pd ''id'') = Inr g"
        "subscriptions_update w = None"
        "getPlanFeeRate (planType i) = Inr fee"
        "notification_message i = Inr msg"
        by (rule reconcile_Inr)
      with m p n that show thesis by blast
    qed
  qed
qed

lemma completed_run:
  assumes m: "method req = ''GET''"
    and p: "snd (prepare req w) = Inr (t, pd, sub, i, u)"
    and n: "\<not> nullish pd" "\<not> nullish sub"
    and g: "opt_toString ''paymentData.id'' (own pd ''id'') = Inr g"
    and ok: "subscriptions_update w = None"
    and fee: "getPlanFeeRate (planType i) = Inr fee"
    and msg: "notification_message i = Inr msg"
  shows "handler req w =
     (fst (prepare req w) @
      Update ''subscriptions'' (subscription_changes u g (clock_subscription w))
        ''id'' (own sub ''id'') #
      Update ''profiles'' (profile_changes i (clock_profile w)) ''id'' u #
      (case profiles_update w of
         Some e \<Rightarrow> [ConsoleError ''Failed to update profile:'' [Reported (Some e)]]
       | None \<Rightarrow> []) @
      Insert ''transactions''
        (transaction_record u t g (own pd ''amount'') (own pd ''currency'') i
           (own pd ''payment_type'') fee) #
      (case transactions_insert w of
         Some e \<Rightarrow> [ConsoleError ''Failed to create transaction record:'' [Reported (Some e)]]
       | None \<Rightarrow> []) @
      Insert ''notifications'' (notification_record u msg i (own sub ''id'')) #
      (case notifications_insert w of
         Some e \<Rightarrow> [ConsoleError ''Failed to create notification:'' [Reported (Some e)]]
       | None \<Rightarrow> []) @
      [ConsoleLog ''Subscription verification completed successfully'' []],
      success_response (own sub ''id'') u i)"
  by (simp add: handler_def m try_block_Inr [OF p] reconcile_completes [OF n ok g fee msg])

subsection \<open>The errors of the later writes change the console only\<close>

lemma early_stages_ignore_later_writes:
  "fetch_verification
     (w\<lparr>profiles_update := p, transactions_insert := t, notifications_insert := n\<rparr>) tid =
   fetch_verification w tid"
  "get_subscription
     (w\<lparr>profiles_update := p, transactions_insert := t, notifications_insert := n\<rparr>) tx =
   get_subscription w tx"
  "create_account
     (w\<lparr>profiles_update := p, transactions_insert := t, notifications_insert := n\<rparr>) i pu =
   create_account w i pu"
  by (simp_all add: fetch_verification_def get_subscription_def create_account_def)

lemma resolve_user_ignores_later_writes:
  "resolve_user
     (w\<lparr>profiles_update := p, transactions_insert := t, notifications_insert := n\<rparr>)
     pd sub i =
   resolve_user w pd sub i"
  by (simp add: resolve_user_def Let_def early_stages_ignore_later_writes cong: if_cong)

lemma prepare_ignores_later_writes:
  "prepare req (w\<lparr>profiles_update := p, transactions_insert := t, notifications_insert := n\<rparr>) =
   prepare req w"
  by (simp add: prepare_def early_stages_ignore_later_writes
                resolve_user_ignores_later_writes)

lemma reconcile_ignores_later_writes:
  assumes n: "\<not> nullish pd" "\<not> nullish sub"
  shows "snd (reconcile (w\<lparr>profiles_update := p, transactions_insert := t,
                          notifications_insert := n\<rparr>) tx pd sub i u) =
         snd (reconcile w tx pd sub i u) \<and>
         filter is_external
           (fst (reconcile (w\<lparr>profiles_update := p, transactions_insert := t,
                             notifications_insert := n\<rparr>) tx pd sub i u)) =
         filter is_external (fst (reconcile w tx pd sub i u))"
proof (cases "opt_toString ''paymentData.id'' (own pd ''id'')")
  case (Inl e)
  with n show ?thesis
    by (simp add: reconcile_def update_subscription_eq bind_def)
next
  case g: (Inr g)
  show ?thesis
  proof (cases "subscriptions_update w")
    case (Some e)
    then have "subscriptions_update
                 (w\<lparr>profiles_update := p, transactions_insert := t,
                    notifications_insert := n\<rparr>) = Some e"
      by simp
    from reconcile_update_fails [OF n this] reconcile_update_fails [OF n Some] g
    show ?thesis by simp
  next
    case None
    then have None': "subscriptions_update
                 (w\<lparr>profiles_update := p, transactions_insert := t,
                    notifications_insert := n\<rparr>) = None"
      by simp
    show ?thesis
    proof (cases "to_string (planType i)")
      case (Inl e)
      from reconcile_conversion_fails [OF n None' g Inl]
        reconcile_conversion_fails [OF n None g Inl]
      show ?thesis by simp
    next
      case (Inr k)
      then obtain fee msg where fee: "getPlanFeeRate (planType i) = Inr fee"
        and msg: "notification_message i = Inr msg"
        by (rule conversions_succeed)
      from reconcile_completes [OF n None' g fee msg]
        reconcile_completes [OF n None g fee msg]
      show ?thesis by simp
    qed
  qed
qed

lemma later_write_errors_only_reach_the_console:
  "snd (handler req (w\<lparr>profiles_update := p, transactions_insert := t,
                       notifications_insert := n\<rparr>)) = snd (handler req w) \<and>
   filter is_external
     (fst (handler req (w\<lparr>profiles_update := p, transactions_insert := t,
                          notifications_insert := n\<rparr>))) =
   filter is_external (fst (handler req w))"
proof (cases "method req = ''GET''")
  case False
  then show ?thesis
    by (simp add: handler_def)
next
  case m: True
  let ?w = "w\<lparr>profiles_update := p, transactions_insert := t, notifications_insert := n\<rparr>"
  show ?thesis
  proof (cases "snd (prepare req w)")
    case (Inl e)
    then have "snd (prepare req ?w) = Inl e"
      by (simp add: prepare_ignores_later_writes)
    from try_block_Inl [OF this] try_block_Inl [OF Inl] m show ?thesis
      by (simp add: snd_handler_GET fst_handler prepare_ignores_later_writes)
  next
    case (Inr ctx)
    obtain tx pd sub i u where ctx: "ctx = (tx, pd, sub, i, u)"
      by (cases ctx) auto
    note q = Inr [unfolded ctx]
    then have q': "snd (prepare req ?w) = Inr (tx, pd, sub, i, u)"
      by (simp add: prepare_ignores_later_writes)
    from snd_prepare_Inr(3,5) [OF q] have nn: "\<not> nullish pd" "\<not> nullish sub"
      by (auto simp: own_JStr_not_nullish truthy_not_nullish)
    from reconcile_ignores_later_writes
           [OF nn, where w = w and p = p and t = t and n = n and tx = tx and i = i and u = u]
      try_block_Inr [OF q'] try_block_Inr [OF q] m
    show ?thesis
      by (simp add: snd_handler_GET fst_handler prepare_ignores_later_writes
               split: sum.splits)
  qed
qed

subsection \<open>A success status without a transaction\<close>

text \<open>
  An answer with the overall status \<open>success\<close> and no transaction makes the read of the
  transaction's status throw; the invocation still fails without touching the
  datastore, with the message of that \<^verbatim>\<open>TypeError\<close> as its detail.
\<close>

lemma success_status_without_data:
  assumes "method req = ''GET''"
    and "map_of (query req) ''tx_ref'' = Some t" and "t \<noteq> []"
    and "gateway w = JsonBody (JObj [(''status'', JStr ''success''), (''data'', JNull)])"
  shows "snd (handler req w) =
           failure_response
             (TypeError (''Cannot read properties of null (reading '' @
                         [CHR 0x27] @ ''status'' @ [CHR 0x27] @ '')'')) \<and>
         filter is_datastore (fst (handler req w)) = []"
proof -
  from assms(2,3) have tx: "truthy (searchParams_get (query req) ''tx_ref'')"
    by (simp add: searchParams_get_def)
  have c: "snd (check_verification (JObj [(''status'', JStr ''success''), (''data'', JNull)])) =
      Inl (TypeError (''Cannot read properties of null (reading '' @
                      [CHR 0x27] @ ''status'' @ [CHR 0x27] @ '')''))"
    by (simp add: check_verification_def snd_bind io_simps)
  note p = prepare_check_fails [OF tx assms(4) c]
  from try_block_Inl [OF p(1)] assms(1) p(2) show ?thesis
    by (simp add: snd_handler_GET fst_handler)
qed

text \<open>
  Whenever the status that line 53 tests can be read and is not the expected one, the
  invocation fails with the detail \<open>Payment verification failed\<close> and touches no
  datastore.
\<close>

lemma verification_failure_with_readable_status:
  assumes "method req = ''GET''"
    and "map_of (query req) ''tx_ref'' = Some t" and "t \<noteq> []"
    and "gateway w = JsonBody vr"
    and "(\<exists>s. get_prop vr ''status'' = Inr s \<and> s \<noteq> JStr ''success'') \<or>
         (\<exists>d ds. get_prop vr ''data'' = Inr d \<and> get_prop d ''status'' = Inr ds \<and>
                  ds \<noteq> JStr ''successful'')"
  shows "snd (handler req w) = failure_response (Error ''Payment verification failed'') \<and>
         filter is_write (fst (handler req w)) = [] \<and>
         filter is_datastore (fst (handler req w)) = []"
proof -
  from assms(2,3) have tx: "truthy (searchParams_get (query req) ''tx_ref'')"
    by (simp add: searchParams_get_def)
  note c = check_verification_fails [OF assms(5)]
  note p = prepare_check_fails [OF tx assms(4) c]
  from p(1) have tb: "try_block req w =
      (fst (prepare req w), Inl (Error ''Payment verification failed''))"
    by (rule try_block_Inl)
  from assms(1) tb have r:
    "snd (handler req w) = failure_response (Error ''Payment verification failed'')"
    by (simp add: snd_handler_GET)
  from assms(1) tb p(2) have d: "filter is_datastore (fst (handler req w)) = []"
    by (simp add: fst_handler)
  then have "filter is_write (fst (handler req w)) = []"
    by (rule write_is_datastore)
  with r d show ?thesis by simp
qed

subsection \<open>Unfolding the model on concrete inputs\<close>

lemmas model_defs =
  handler_def try_block_def prepare_def reconcile_def read_parameters_def
  fetch_verification_def check_verification_def get_subscription_def extract_info_def
  resolve_user_def create_account_def update_subscription_def update_profile_def
  insert_transaction_def insert_notification_def respond_success_def
  notification_message_def getPlanFeeRate_def get_computed_def feeRates_def
  object_prototype_def opt_prop_def opt_toString_def searchParams_get_def
  bind_def ret_def throw_def emit_def lift_def try_catch_def Let_def

lemmas sample_defs =
  sample_request_def sample_world_def sample_answer_def sample_payment_def
  sample_subscription_def trial_world_def trial_answer_def trial_payment_def
  pending_subscription_def declined_answer_def pending_answer_def
  success_without_data_def unprintable_plan_world_def failing_update_world_def
  noisy_world_def no_account_world_def inherited_plan_world_def

lemma verification_failure_samples:
  "method sample_request = ''GET'' \<and>
   map_of (query sample_request) ''tx_ref'' = Some ''sub-ref-1'' \<and>
   gateway (sample_world\<lparr>gateway := JsonBody declined_answer\<rparr>) = JsonBody declined_answer \<and>
   get_prop declined_answer ''status'' = Inr (JStr ''error'') \<and>
   snd (handler sample_request (sample_world\<lparr>gateway := JsonBody declined_answer\<rparr>)) =
     failure_response (Error ''Payment verification failed'') \<and>
   filter is_write
     (fst (handler sample_request (sample_world\<lparr>gateway := JsonBody declined_answer\<rparr>))) = [] \<and>
   gateway (sample_world\<lparr>gateway := JsonBody pending_answer\<rparr>) = JsonBody pending_answer \<and>
   get_prop pending_answer ''status'' = Inr (JStr ''success'') \<and>
   get_prop (own pending_answer ''data'') ''status'' = Inr (JStr ''pending'') \<and>
   snd (handler sample_request (sample_world\<lparr>gateway := JsonBody pending_answer\<rparr>)) =
     failure_response (Error ''Payment verification failed'') \<and>
   filter is_write
     (fst (handler sample_request (sample_world\<lparr>gateway := JsonBody pending_answer\<rparr>))) = []"
proof -
  have 1: "method sample_request = ''GET''"
    and 2: "map_of (query sample_request) ''tx_ref'' = Some ''sub-ref-1''"
    and 3: "''sub-ref-1'' \<noteq> []"
    by (simp_all add: sample_request_def)
  have 4: "gateway (sample_world\<lparr>gateway := JsonBody declined_answer\<rparr>) =
           JsonBody declined_answer"
    by simp
  have 5: "get_prop declined_answer ''status'' = Inr (JStr ''error'')"
    by (simp add: declined_answer_def)
  then have 6:
    "(\<exists>s. get_prop declined_answer ''status'' = Inr s \<and> s \<noteq> JStr ''success'') \<or>
     (\<exists>d ds. get_prop declined_answer ''data'' = Inr d \<and> get_prop d ''status'' = Inr ds \<and>
              ds \<noteq> JStr ''successful'')"
    by simp
  have 7: "gateway (sample_world\<lparr>gateway := JsonBody pending_answer\<rparr>) =
           JsonBody pending_answer"
    by simp
  have 8: "get_prop pending_answer ''status'' = Inr (JStr ''success'')"
    and 9: "get_prop pending_answer ''data'' = Inr (own pending_answer ''data'')"
    and 10: "get_prop (own pending_answer ''data'') ''status'' = Inr (JStr ''pending'')"
    by (simp_all add: pending_answer_def)
  from 9 10 have 11:
    "(\<exists>s. get_prop pending_answer ''status'' = Inr s \<and> s \<noteq> JStr ''success'') \<or>
     (\<exists>d ds. get_prop pending_answer ''data'' = Inr d \<and> get_prop d ''status'' = Inr ds \<and>
              ds \<noteq> JStr ''successful'')"
    by blast
  from verification_failure_with_readable_status [OF 1 2 3 4 6]
    verification_failure_with_readable_status [OF 1 2 3 7 11] 1 2 4 5 7 8 10
  show ?thesis by simp
qed

section \<open>The claims\<close>

text \<open>
  C1. The claim is that a gateway answer whose overall status is not \<open>success\<close>, or
  whose transaction status is not \<open>successful\<close>, makes the invocation fail with the
  detail \<open>Payment verification failed\<close> and write nothing. Line 53 reads
  \<^verbatim>\<open>verificationResult.data.status\<close> without the guard that lines 76, 77, 84 and 121
  put before \<open>meta\<close> and \<open>id\<close> (\<open>?.\<close>): for an answer with the overall status \<open>success\<close>
  and no transaction the read throws, the \<^verbatim>\<open>catch\<close> block reports the message of that
  \<^verbatim>\<open>TypeError\<close>, and the detail is not \<open>Payment verification failed\<close>. The invocation
  still writes nothing. Where the status that line 53 tests can be read, the claim
  holds (lemma \<open>verification_failure_with_readable_status\<close>).
\<close>

theorem verification_failure_without_transaction:
  "method sample_request = ''GET'' \<and>
   map_of (query sample_request) ''tx_ref'' = Some ''sub-ref-1'' \<and>
   gateway (sample_world\<lparr>gateway := JsonBody success_without_data\<rparr>) =
     JsonBody success_without_data \<and>
   own success_without_data ''status'' = JStr ''success'' \<and>
   own (own success_without_data ''data'') ''status'' \<noteq> JStr ''successful'' \<and>
   snd (handler sample_request (sample_world\<lparr>gateway := JsonBody success_without_data\<rparr>)) =
     failure_response
       (TypeError (''Cannot read properties of null (reading '' @
                   [CHR 0x27] @ ''status'' @ [CHR 0x27] @ '')'')) \<and>
   snd (handler sample_request (sample_world\<lparr>gateway := JsonBody success_without_data\<rparr>)) \<noteq>
     failure_response (Error ''Payment verification failed'') \<and>
   filter is_datastore
     (fst (handler sample_request
             (sample_world\<lparr>gateway := JsonBody success_without_data\<rparr>))) = []"
proof -
  have 1: "method sample_request = ''GET''"
    and 2: "map_of (query sample_request) ''tx_ref'' = Some ''sub-ref-1''"
    and 3: "''sub-ref-1'' \<noteq> []"
    by (simp_all add: sample_request_def)
  have 4: "gateway (sample_world\<lparr>gateway := JsonBody success_without_data\<rparr>) =
           JsonBody (JObj [(''status'', JStr ''success''), (''data'', JNull)])"
    by (simp add: success_without_data_def)
  have 5: "own success_without_data ''status'' = JStr ''success''"
    and 6: "own (own success_without_data ''data'') ''status'' \<noteq> JStr ''successful''"
    by (simp_all add: success_without_data_def)
  from success_status_without_data [OF 1 2 3 4] 1 2 4 5 6 show ?thesis
    by (simp add: failure_response_def success_without_data_def)
qed

text \<open>
  C2. When the update of the subscription reports an error, the invocation fails with
  the detail \<open>Failed to update subscription\<close>; no profile update, transaction insert
  or notification insert is attempted; and after the failed update the handler only
  writes two lines to the console. It has no call that reverts anything, so an account
  created earlier in the invocation stays: the writes before the update are none, or
  that one account creation. The invocation is one whose effects contain the update.
\<close>

theorem subscription_update_error_is_fatal:
  assumes "Update ''subscriptions'' row c v \<in> set (fst (handler req w))"
    and "subscriptions_update w = Some e"
  shows "snd (handler req w) = failure_response (Error ''Failed to update subscription'') \<and>
         filter (updates ''profiles'') (fst (handler req w)) = [] \<and>
         filter (inserts ''transactions'') (fst (handler req w)) = [] \<and>
         filter (inserts ''notifications'') (fst (handler req w)) = [] \<and>
         (\<exists>before.
            fst (handler req w) =
              before @
              [Update ''subscriptions'' row c v,
               ConsoleError ''Failed to update subscription:'' [Reported (Some e)],
               ConsoleError ''Subscription verification error:''
                 [Caught (Error ''Failed to update subscription'')]] \<and>
            (filter is_write before = [] \<or>
             (\<exists>account. filter is_write before = [AuthAdminCreateUser account])))"
proof -
  from assms(1) obtain t pd sub i u g where
    m: "method req = ''GET''" and
    p: "snd (prepare req w) = Inr (t, pd, sub, i, u)" and
    n: "\<not> nullish pd" "\<not> nullish sub" and
    g: "opt_toString ''paymentData.id'' (own pd ''id'') = Inr g" and
    row: "row = subscription_changes u g (clock_subscription w)" "c = ''id''"
         "v = own sub ''id''"
    by (rule reach_update)
  have r: "reconcile w t pd sub i u =
      ([Update ''subscriptions'' row c v,
        ConsoleError ''Failed to update subscription:'' [Reported (Some e)]],
       Inl (Error ''Failed to update subscription''))"
    by (simp add: reconcile_update_fails [OF n assms(2)] g row)
  have tb: "try_block req w =
      (fst (prepare req w) @
       [Update ''subscriptions'' row c v,
        ConsoleError ''Failed to update subscription:'' [Reported (Some e)]],
       Inl (Error ''Failed to update subscription''))"
    by (simp add: try_block_Inr [OF p] r)
  have tr: "fst (handler req w) =
      fst (prepare req w) @
      [Update ''subscriptions'' row c v,
       ConsoleError ''Failed to update subscription:'' [Reported (Some e)],
       ConsoleError ''Subscription verification error:''
         [Caught (Error ''Failed to update subscription'')]]"
    by (simp add: fst_handler m tb)
  have resp: "snd (handler req w) =
      failure_response (Error ''Failed to update subscription'')"
    by (simp add: snd_handler_GET m tb)
  have "filter (updates ''profiles'') (fst (handler req w)) = []"
    and "filter (inserts ''transactions'') (fst (handler req w)) = []"
    and "filter (inserts ''notifications'') (fst (handler req w)) = []"
    by (simp_all add: tr filter_updates_prepare filter_inserts_prepare)
  with resp tr fst_prepare [of req w] show ?thesis
    by blast
qed

theorem subscription_update_error_witness:
  "Update ''subscriptions''
     (subscription_changes (JStr ''user-9'') (JStr ''4975364'') ''2024-05-01T10:00:00.000Z'')
     ''id'' (JStr ''sub-2'') \<in> set (fst (handler sample_request failing_update_world)) \<and>
   subscriptions_update failing_update_world = Some (ApiError ''connection timed out'') \<and>
   snd (handler sample_request failing_update_world) =
     failure_response (Error ''Failed to update subscription'') \<and>
   filter (updates ''profiles'') (fst (handler sample_request failing_update_world)) = [] \<and>
   filter (inserts ''transactions'') (fst (handler sample_request failing_update_world)) = [] \<and>
   filter (inserts ''notifications'') (fst (handler sample_request failing_update_world)) = [] \<and>
   filter is_write (fst (handler sample_request failing_update_world)) =
     [AuthAdminCreateUser
        (JObj [(''email'', JStr ''bola@example.com''), (''password'', JStr ''s3cret''),
               (''email_confirm'', JBool True),
               (''user_metadata'', JObj [(''full_name'', JStr ''Bola Ade'')])]),
      Update ''subscriptions''
        (subscription_changes (JStr ''user-9'') (JStr ''4975364'')
           ''2024-05-01T10:00:00.000Z'')
        ''id'' (JStr ''sub-2'')]"
proof -
  have 1: "Update ''subscriptions''
     (subscription_changes (JStr ''user-9'') (JStr ''4975364'') ''2024-05-01T10:00:00.000Z'')
     ''id'' (JStr ''sub-2'') \<in> set (fst (handler sample_request failing_update_world))"
    by (simp add: model_defs sample_defs new_account_def)
  have 2: "subscriptions_update failing_update_world =
             Some (ApiError ''connection timed out'')"
    by (simp add: sample_defs)
  have 3: "filter is_write (fst (handler sample_request failing_update_world)) =
     [AuthAdminCreateUser
        (JObj [(''email'', JStr ''bola@example.com''), (''password'', JStr ''s3cret''),
               (''email_confirm'', JBool True),
               (''user_metadata'', JObj [(''full_name'', JStr ''Bola Ade'')])]),
      Update ''subscriptions''
        (subscription_changes (JStr ''user-9'') (JStr ''4975364'')
           ''2024-05-01T10:00:00.000Z'')
        ''id'' (JStr ''sub-2'')]"
    by (simp add: model_defs sample_defs new_account_def)
  from subscription_update_error_is_fatal [OF 1 2] 1 2 3 show ?thesis
    by simp
qed

text \<open>
  C3, as amended. The claim speaks of every invocation in which the update of the
  subscription succeeds, but \<^verbatim>\<open>getPlanFeeRate\<close> takes a plan type of type \<open>string\<close>:
  a plan type without a string form makes the fee lookup throw before the transaction
  insert. For every invocation in which the update of the subscription succeeds and the
  plan type has a string form (every string, number, boolean, \<open>null\<close> and \<open>undefined\<close>
  has one), the profile update, the transaction insert and the notification insert
  follow in this order whatever each of them reports; a reported error only adds a line
  to the console, and the response is the success response (status 200,
  \<open>success: true\<close>). Lemma \<open>later_write_errors_only_reach_the_console\<close> shows for every
  plan type that the three reported errors change neither the response nor the calls
  made.
\<close>

theorem later_write_errors_are_not_fatal:
  assumes "Update ''subscriptions'' row c v \<in> set (fst (handler req w))"
    and "subscriptions_update w = None"
    and "gateway w = JsonBody vr"
    and "subscriptions_select w = Rows [sub]"
    and "to_string (if truthy (opt_prop (own (own vr ''data'') ''meta'') ''plan_type'')
                    then opt_prop (own (own vr ''data'') ''meta'') ''plan_type''
                    else own sub ''plan_type'') = Inr k"
  shows "\<exists>before profile_row uid transaction_row notification_row sid i.
           fst (handler req w) =
             before @
             Update ''subscriptions'' row c v #
             Update ''profiles'' profile_row ''id'' uid #
             (case profiles_update w of
                Some e \<Rightarrow> [ConsoleError ''Failed to update profile:'' [Reported (Some e)]]
              | None \<Rightarrow> []) @
             Insert ''transactions'' transaction_row #
             (case transactions_insert w of
                Some e \<Rightarrow>
                  [ConsoleError ''Failed to create transaction record:'' [Reported (Some e)]]
              | None \<Rightarrow> []) @
             Insert ''notifications'' notification_row #
             (case notifications_insert w of
                Some e \<Rightarrow> [ConsoleError ''Failed to create notification:'' [Reported (Some e)]]
              | None \<Rightarrow> []) @
             [ConsoleLog ''Subscription verification completed successfully'' []] \<and>
           snd (handler req w) = success_response sid uid i \<and>
           status (snd (handler req w)) = 200 \<and>
           (\<exists>b. body (snd (handler req w)) = JsonText b \<and> own b ''success'' = JBool True)"
proof -
  from assms(1) obtain t pd sub' i u g where
    m: "method req = ''GET''" and
    p: "snd (prepare req w) = Inr (t, pd, sub', i, u)" and
    n: "\<not> nullish pd" "\<not> nullish sub'" and
    g: "opt_toString ''paymentData.id'' (own pd ''id'') = Inr g" and
    row: "row = subscription_changes u g (clock_subscription w)" "c = ''id''"
         "v = own sub' ''id''"
    by (rule reach_update)
  from snd_prepare_Inr(3) [OF p] assms(3) have pd: "pd = own vr ''data''"
    by auto
  from snd_prepare_Inr(4) [OF p] assms(4) have sub: "sub' = sub"
    by simp
  from snd_prepare_Inr(6) [OF p] have pt:
    "planType i = (if truthy (opt_prop (own (own vr ''data'') ''meta'') ''plan_type'')
                   then opt_prop (own (own vr ''data'') ''meta'') ''plan_type''
                   else own sub ''plan_type'')"
    unfolding pd sub by simp
  have "to_string (planType i) = Inr k"
    unfolding pt by (rule assms(5))
  then obtain fee msg where fee: "getPlanFeeRate (planType i) = Inr fee"
    and msg: "notification_message i = Inr msg"
    by (rule conversions_succeed)
  note run = completed_run [OF m p n g assms(2) fee msg]
  have "status (success_response (own sub' ''id'') u i) = 200"
    and "\<exists>b. body (success_response (own sub' ''id'') u i) = JsonText b \<and>
             own b ''success'' = JBool True"
    by (simp_all add: success_response_def)
  with run row show ?thesis
    by (simp del: append_Cons) blast
qed

theorem later_write_errors_witness:
  "Update ''subscriptions''
     (subscription_changes (JStr ''user-9'') (JStr ''4975364'') ''2024-05-01T10:00:00.000Z'')
     ''id'' (JStr ''sub-2'') \<in> set (fst (handler sample_request noisy_world)) \<and>
   subscriptions_update noisy_world = None \<and>
   profiles_update noisy_world = Some (ApiError ''row not found'') \<and>
   transactions_insert noisy_world = Some (ApiError ''duplicate key'') \<and>
   notifications_insert noisy_world = Some (ApiError ''permission denied'') \<and>
   gateway noisy_world = JsonBody trial_answer \<and>
   subscriptions_select noisy_world = Rows [pending_subscription] \<and>
   to_string (opt_prop (own (own trial_answer ''data'') ''meta'') ''plan_type'') =
     Inr ''starter'' \<and>
   status (snd (handler sample_request noisy_world)) = 200 \<and>
   (\<exists>b. body (snd (handler sample_request noisy_world)) = JsonText b \<and>
        own b ''success'' = JBool True) \<and>
   map (\<lambda>e. case e of Update t r c v \<Rightarrow> t | Insert t r \<Rightarrow> t | _ \<Rightarrow> ''account'')
     (filter is_write (fst (handler sample_request noisy_world))) =
     [''account'', ''subscriptions'', ''profiles'', ''transactions'', ''notifications'']"
proof -
  have 1: "Update ''subscriptions''
     (subscription_changes (JStr ''user-9'') (JStr ''4975364'') ''2024-05-01T10:00:00.000Z'')
     ''id'' (JStr ''sub-2'') \<in> set (fst (handler sample_request noisy_world))"
    by (simp add: model_defs sample_defs new_account_def)
  have 2: "subscriptions_update noisy_world = None"
    and 3: "gateway noisy_world = JsonBody trial_answer"
    and 4: "subscriptions_select noisy_world = Rows [pending_subscription]"
    and e: "profiles_update noisy_world = Some (ApiError ''row not found'')"
      "transactions_insert noisy_world = Some (ApiError ''duplicate key'')"
      "notifications_insert noisy_world = Some (ApiError ''permission denied'')"
    by (simp_all add: sample_defs)
  have m: "opt_prop (own (own trial_answer ''data'') ''meta'') ''plan_type'' = JStr ''starter''"
    by (simp add: sample_defs opt_prop_def)
  have 5: "to_string
             (if truthy (opt_prop (own (own trial_answer ''data'') ''meta'') ''plan_type'')
              then opt_prop (own (own trial_answer ''data'') ''meta'') ''plan_type''
              else own pending_subscription ''plan_type'') = Inr ''starter''"
    by (simp add: m)
  have 6: "map (\<lambda>e. case e of Update t r c v \<Rightarrow> t | Insert t r \<Rightarrow> t | _ \<Rightarrow> ''account'')
     (filter is_write (fst (handler sample_request noisy_world))) =
     [''account'', ''subscriptions'', ''profiles'', ''transactions'', ''notifications'']"
    by (simp add: model_defs sample_defs new_account_def subscription_changes_def
                  profile_changes_def transaction_record_def notification_record_def)
  from later_write_errors_are_not_fatal [OF 1 2 3 4 5]
  have "status (snd (handler sample_request noisy_world)) = 200 \<and>
        (\<exists>b. body (snd (handler sample_request noisy_world)) = JsonText b \<and>
             own b ''success'' = JBool True)"
    by blast
  with 1 2 3 4 e m 6 show ?thesis
    by simp
qed

text \<open>
  The claim as stated fails for a payment whose \<open>plan_type\<close> is the object
  \<^verbatim>\<open>{"toString": 1}\<close>: the subscription update succeeds, the profile update is
  attempted and reports an error, then the fee lookup throws; no transaction and no
  notification is inserted and the response is the failure with status 500.
\<close>

theorem later_writes_skipped_without_string_form:
  "Update ''subscriptions''
     (subscription_changes (JStr ''user-7'') (JStr ''4975366'') ''2024-05-01T10:00:00.000Z'')
     ''id'' (JStr ''sub-1'') \<in> set (fst (handler sample_request unprintable_plan_world)) \<and>
   subscriptions_update unprintable_plan_world = None \<and>
   profiles_update unprintable_plan_world = Some (ApiError ''row not found'') \<and>
   filter is_write (fst (handler sample_request unprintable_plan_world)) =
     [Update ''subscriptions''
        (subscription_changes (JStr ''user-7'') (JStr ''4975366'')
           ''2024-05-01T10:00:00.000Z'')
        ''id'' (JStr ''sub-1''),
      Update ''profiles''
        (JObj [(''plan_type'', JObj [(''toString'', JNum ''1'')]),
               (''subscription_status'', JStr ''active''),
               (''updated_at'', JStr ''2024-05-01T10:00:00.120Z'')])
        ''id'' (JStr ''user-7'')] \<and>
   filter (inserts ''transactions'') (fst (handler sample_request unprintable_plan_world)) = [] \<and>
   filter (inserts ''notifications'') (fst (handler sample_request unprintable_plan_world)) = [] \<and>
   snd (handler sample_request unprintable_plan_world) =
     failure_response (TypeError ''Cannot convert object to primitive value'') \<and>
   status (snd (handler sample_request unprintable_plan_world)) = 500 \<and>
   body (snd (handler sample_request unprintable_plan_world)) =
     JsonText (JObj [(''error'', JStr ''Subscription verification failed''),
                     (''details'', JStr ''Cannot convert object to primitive value'')])"
  by (simp add: model_defs sample_defs failure_response_def subscription_changes_def
                profile_changes_def)

text \<open>
  C4. The claim is that every plan-type string other than \<open>starter\<close>, \<open>professional\<close>
  and \<open>enterprise\<close> gets the default rate 0.05. The read \<^verbatim>\<open>feeRates[planType]\<close> also
  finds what the object literal inherits: for the plan-type string \<open>constructor\<close> it
  yields the built-in \<^verbatim>\<open>Object\<close> function, which is truthy, so the default does not
  apply, the function declared to return a number returns that function, and the row
  handed to the transaction insert of a payment for that plan has it as
  \<open>plan_fee_rate\<close>, not 0.05. Lemmas \<open>getPlanFeeRate_named\<close> and
  \<open>getPlanFeeRate_default\<close> give the table for every other string.
\<close>

theorem getPlanFeeRate_inherited_property:
  "getPlanFeeRate (JStr ''constructor'') = Inr (JNative ''Object'') \<and>
   getPlanFeeRate (JStr ''constructor'') \<noteq> Inr (JNum ''0.05'') \<and>
   filter (inserts ''transactions'') (fst (handler sample_request inherited_plan_world)) =
     [Insert ''transactions''
        (JObj [(''user_id'', JStr ''user-7''),
               (''flutterwave_tx_ref'', JStr ''sub-ref-1''),
               (''flutterwave_tx_id'', JStr ''4975365''),
               (''amount'', JNum ''29''),
               (''currency'', JStr ''USD''),
               (''status'', JStr ''completed''),
               (''customer_email'', JStr ''ada@example.com''),
               (''customer_name'', JStr ''Ada Obi''),
               (''payment_method'', JStr ''card''),
               (''plan_fee_rate'', JNative ''Object'')])]"
proof -
  have "getPlanFeeRate (JStr ''constructor'') = Inr (JNative ''Object'')"
    by (simp add: getPlanFeeRate_table object_prototype_def)
  moreover have
    "filter (inserts ''transactions'') (fst (handler sample_request inherited_plan_world)) =
     [Insert ''transactions''
        (JObj [(''user_id'', JStr ''user-7''),
               (''flutterwave_tx_ref'', JStr ''sub-ref-1''),
               (''flutterwave_tx_id'', JStr ''4975365''),
               (''amount'', JNum ''29''),
               (''currency'', JStr ''USD''),
               (''status'', JStr ''completed''),
               (''customer_email'', JStr ''ada@example.com''),
               (''customer_name'', JStr ''Ada Obi''),
               (''payment_method'', JStr ''card''),
               (''plan_fee_rate'', JNative ''Object'')])]"
    by (simp add: model_defs sample_defs transaction_record_def)
  ultimately show ?thesis by simp
qed

text \<open>
  C5. When the payment is verified and the lookup of the subscription by transaction
  reference finds no row, finds several rows, or fails, the invocation fails with the
  detail \<open>Subscription not found\<close> and writes nothing.
\<close>

theorem subscription_lookup_failure:
  assumes "method req = ''GET''"
    and "map_of (query req) ''tx_ref'' = Some t" and "t \<noteq> []"
    and "gateway w = JsonBody vr"
    and "get_prop vr ''status'' = Inr (JStr ''success'')"
    and "get_prop vr ''data'' = Inr pd"
    and "get_prop pd ''status'' = Inr (JStr ''successful'')"
    and "(\<exists>e. subscriptions_select w = QueryFailed e) \<or>
         (\<exists>rs. subscriptions_select w = Rows rs \<and> length rs \<noteq> 1)"
  shows "snd (handler req w) = failure_response (Error ''Subscription not found'') \<and>
         filter is_write (fst (handler req w)) = []"
proof -
  from assms(2,3) have tx: "truthy (searchParams_get (query req) ''tx_ref'')"
    by (simp add: searchParams_get_def)
  from assms(5-7) have c: "snd (check_verification vr) = Inr pd"
    by (simp add: snd_check_verification_Inr get_prop_Inr)
  from single_fails [OF assms(8)]
  have "error (single (subscriptions_select w)) \<noteq> None \<or>
        \<not> truthy (data (single (subscriptions_select w)))" by simp
  note p = prepare_lookup_fails [OF tx assms(4) c this]
  from p(1) have tb: "try_block req w =
      (fst (prepare req w), Inl (Error ''Subscription not found''))"
    by (rule try_block_Inl)
  from assms(1) tb have
    "snd (handler req w) = failure_response (Error ''Subscription not found'')"
    by (simp add: snd_handler_GET)
  moreover from assms(1) tb p(2) have "filter is_write (fst (handler req w)) = []"
    by (simp add: fst_handler)
  ultimately show ?thesis by simp
qed

theorem subscription_lookup_failure_witness:
  "method sample_request = ''GET'' \<and>
   map_of (query sample_request) ''tx_ref'' = Some ''sub-ref-1'' \<and>
   gateway sample_world = JsonBody sample_answer \<and>
   get_prop sample_answer ''status'' = Inr (JStr ''success'') \<and>
   get_prop sample_answer ''data'' = Inr sample_payment \<and>
   get_prop sample_payment ''status'' = Inr (JStr ''successful'') \<and>
   snd (handler sample_request (sample_world\<lparr>subscriptions_select := Rows []\<rparr>)) =
     failure_response (Error ''Subscription not found'') \<and>
   filter is_write
     (fst (handler sample_request (sample_world\<lparr>subscriptions_select := Rows []\<rparr>))) = [] \<and>
   snd (handler sample_request
          (sample_world\<lparr>subscriptions_select :=
                          Rows [sample_subscription, pending_subscription]\<rparr>)) =
     failure_response (Error ''Subscription not found'') \<and>
   snd (handler sample_request
          (sample_world\<lparr>subscriptions_select := QueryFailed (ApiError ''timeout'')\<rparr>)) =
     failure_response (Error ''Subscription not found'')"
proof -
  have 1: "method sample_request = ''GET''"
    and 2: "map_of (query sample_request) ''tx_ref'' = Some ''sub-ref-1''"
    and 3: "''sub-ref-1'' \<noteq> []"
    by (simp_all add: sample_request_def)
  have g: "gateway sample_world = JsonBody sample_answer"
    by (simp add: sample_world_def)
  then have 4: "gateway (sample_world\<lparr>subscriptions_select := q\<rparr>) = JsonBody sample_answer"
    for q by simp
  have 5: "get_prop sample_answer ''status'' = Inr (JStr ''success'')"
    and 6: "get_prop sample_answer ''data'' = Inr sample_payment"
    by (simp_all add: sample_answer_def)
  have 7: "get_prop sample_payment ''status'' = Inr (JStr ''successful'')"
    by (simp add: sample_payment_def)
  have none:
    "(\<exists>e. subscriptions_select (sample_world\<lparr>subscriptions_select := Rows []\<rparr>) =
           QueryFailed e) \<or>
     (\<exists>rs. subscriptions_select (sample_world\<lparr>subscriptions_select := Rows []\<rparr>) = Rows rs \<and>
            length rs \<noteq> 1)"
    by simp
  have several:
    "(\<exists>e. subscriptions_select
            (sample_world\<lparr>subscriptions_select :=
                            Rows [sample_subscription, pending_subscription]\<rparr>) =
           QueryFailed e) \<or>
     (\<exists>rs. subscriptions_select
             (sample_world\<lparr>subscriptions_select :=
                             Rows [sample_subscription, pending_subscription]\<rparr>) = Rows rs \<and>
            length rs \<noteq> 1)"
    by simp
  have failed:
    "(\<exists>e. subscriptions_select
            (sample_world\<lparr>subscriptions_select := QueryFailed (ApiError ''timeout'')\<rparr>) =
           QueryFailed e) \<or>
     (\<exists>rs. subscriptions_select
             (sample_world\<lparr>subscriptions_select := QueryFailed (ApiError ''timeout'')\<rparr>) =
             Rows rs \<and>
            length rs \<noteq> 1)"
    by simp
  from subscription_lookup_failure [OF 1 2 3 4 5 6 7 none]
    subscription_lookup_failure [OF 1 2 3 4 5 6 7 several]
    subscription_lookup_failure [OF 1 2 3 4 5 6 7 failed]
    1 2 g 5 6 7
  show ?thesis by simp
qed

text \<open>
  C6. Whatever error the \<^verbatim>\<open>try\<close> block throws (a missing parameter, a failed
  verification, a failed lookup, a failed provisioning, a failed subscription update,
  or an error of the runtime), the response has status 500 and a JSON body with the
  fixed label \<open>Subscription verification failed\<close> and the message of the error as
  details; the error is written to the console last.
\<close>

theorem fatal_errors_uniform_response:
  assumes "method req = ''GET''" and "snd (try_block req w) = Inl e"
  shows "snd (handler req w) =
           \<lparr>status = 500,
            headers = [(''Content-Type'', ''application/json''),
                       (''Access-Control-Allow-Origin'', ''*''),
                       (''Access-Control-Allow-Headers'',
                        ''authorization, x-client-info, apikey, content-type'')],
            body = JsonText
                     (JObj [(''error'', JStr ''Subscription verification failed''),
                            (''details'', JStr (message e))])\<rparr> \<and>
         fst (handler req w) =
           fst (try_block req w) @
           [ConsoleError ''Subscription verification error:'' [Caught e]]"
  using assms
  by (simp add: snd_handler_GET fst_handler failure_response_def corsHeaders_def)

theorem fatal_errors_witness:
  "method sample_request = ''GET'' \<and>
   snd (try_block sample_request no_account_world) = Inl (Error ''No user data found'') \<and>
   status (snd (handler sample_request no_account_world)) = 500 \<and>
   body (snd (handler sample_request no_account_world)) =
     JsonText (JObj [(''error'', JStr ''Subscription verification failed''),
                     (''details'', JStr ''No user data found'')])"
proof -
  have 1: "method sample_request = ''GET''"
    by (simp add: sample_request_def)
  have 2: "snd (try_block sample_request no_account_world) =
             Inl (Error ''No user data found'')"
    by (simp add: model_defs sample_defs)
  from fatal_errors_uniform_response [OF 1 2] 1 2 show ?thesis
    by simp
qed

text \<open>
  C7. In every invocation that answers with the success response there is exactly one
  profile update; it sets the subscription status to \<open>trial\<close> exactly when the trial
  flag of the payment is set (\<^verbatim>\<open>paymentData.meta?.is_trial === true\<close>) and to \<open>active\<close>
  otherwise, and the field \<open>is_trial\<close> of the response is that same flag.
\<close>

theorem trial_flag_in_profile_and_response:
  assumes "body (snd (handler req w)) = JsonText b"
    and "own b ''success'' = JBool True"
    and "gateway w = JsonBody vr"
  shows "\<exists>profile_row uid.
           filter (updates ''profiles'') (fst (handler req w)) =
             [Update ''profiles'' profile_row ''id'' uid] \<and>
           own profile_row ''subscription_status'' =
             JStr (if opt_prop (own (own vr ''data'') ''meta'') ''is_trial'' = JBool True
                   then ''trial'' else ''active'') \<and>
           own b ''is_trial'' =
             JBool (opt_prop (own (own vr ''data'') ''meta'') ''is_trial'' = JBool True)"
proof -
  from assms(1,2) obtain t pd sub i u g fee msg where
    m: "method req = ''GET''" and
    p: "snd (prepare req w) = Inr (t, pd, sub, i, u)" and
    n: "\<not> nullish pd" "\<not> nullish sub" and
    g: "opt_toString ''paymentData.id'' (own pd ''id'') = Inr g" and
    ok: "subscriptions_update w = None" and
    fee: "getPlanFeeRate (planType i) = Inr fee" and
    msg: "notification_message i = Inr msg"
    by (rule successful_run)
  note run = completed_run [OF m p n g ok fee msg]
  from snd_prepare_Inr(3) [OF p] assms(3) have pd: "pd = own vr ''data''"
    by auto
  from snd_prepare_Inr(6) [OF p] have
    trial: "isTrial i = (opt_prop (own (own vr ''data'') ''meta'') ''is_trial'' = JBool True)"
    unfolding pd by simp
  have 1: "filter (updates ''profiles'') (fst (handler req w)) =
             [Update ''profiles'' (profile_changes i (clock_profile w)) ''id'' u]"
    by (simp add: run filter_updates_prepare)
  have 2: "own (profile_changes i (clock_profile w)) ''subscription_status'' =
             JStr (if isTrial i then ''trial'' else ''active'')"
    by (simp add: profile_changes_def)
  from assms(1) have "b = JObj [(''success'', JBool True),
                      (''subscription_id'', own sub ''id''),
                      (''user_id'', u),
                      (''plan_type'', planType i),
                      (''is_trial'', JBool (isTrial i)),
                      (''message'',
                       JStr ''Subscription verified and activated successfully'')]"
    by (simp add: run success_response_def)
  then have 3: "own b ''is_trial'' = JBool (isTrial i)"
    by simp
  from 1 2 3 show ?thesis
    unfolding trial by blast
qed

theorem trial_flag_witness:
  "body (snd (handler sample_request trial_world)) =
     JsonText (JObj [(''success'', JBool True),
                     (''subscription_id'', JStr ''sub-2''),
                     (''user_id'', JStr ''user-9''),
                     (''plan_type'', JStr ''starter''),
                     (''is_trial'', JBool True),
                     (''message'', JStr ''Subscription verified and activated successfully'')]) \<and>
   gateway trial_world = JsonBody trial_answer \<and>
   opt_prop (own (own trial_answer ''data'') ''meta'') ''is_trial'' = JBool True \<and>
   (\<exists>profile_row uid.
      filter (updates ''profiles'') (fst (handler sample_request trial_world)) =
        [Update ''profiles'' profile_row ''id'' uid] \<and>
      own profile_row ''subscription_status'' = JStr ''trial'')"
proof -
  have 1: "body (snd (handler sample_request trial_world)) =
     JsonText (JObj [(''success'', JBool True),
                     (''subscription_id'', JStr ''sub-2''),
                     (''user_id'', JStr ''user-9''),
                     (''plan_type'', JStr ''starter''),
                     (''is_trial'', JBool True),
                     (''message'', JStr ''Subscription verified and activated successfully'')])"
    by (simp add: model_defs sample_defs success_response_def)
  have 2: "own (JObj [(''success'', JBool True),
                     (''subscription_id'', JStr ''sub-2''),
                     (''user_id'', JStr ''user-9''),
                     (''plan_type'', JStr ''starter''),
                     (''is_trial'', JBool True),
                     (''message'', JStr ''Subscription verified and activated successfully'')])
             ''success'' = JBool True"
    by simp
  have 3: "gateway trial_world = JsonBody trial_answer"
    by (simp add: sample_defs)
  have 4: "opt_prop (own (own trial_answer ''data'') ''meta'') ''is_trial'' = JBool True"
    by (simp add: sample_defs opt_prop_def)
  from trial_flag_in_profile_and_response [OF 1 2 3] 1 3 4 show ?thesis
    by simp
qed

text \<open>
  C8, as amended. The claim speaks of every request without a \<open>tx_ref\<close> parameter, but
  the method gate answers first: a request that is not a \<open>GET\<close> never reaches the
  parameter. For every \<open>GET\<close> request whose query string has no \<open>tx_ref\<close> parameter the
  response is the failure with the detail \<open>Missing transaction reference\<close>, and nothing
  leaves the process: no call to the gateway, to the datastore or to the account
  service.
\<close>

theorem missing_tx_ref_on_GET:
  assumes "method req = ''GET''" and "map_of (query req) ''tx_ref'' = None"
  shows "snd (handler req w) = failure_response (Error ''Missing transaction reference'') \<and>
         filter is_external (fst (handler req w)) = []"
  using assms
  by (simp add: snd_handler_GET fst_handler try_block_missing searchParams_get_def)

theorem missing_tx_ref_on_GET_witness:
  "method (sample_request\<lparr>query := [(''transaction_id'', ''4975363'')]\<rparr>) = ''GET'' \<and>
   map_of (query (sample_request\<lparr>query := [(''transaction_id'', ''4975363'')]\<rparr>)) ''tx_ref'' =
     None \<and>
   snd (handler (sample_request\<lparr>query := [(''transaction_id'', ''4975363'')]\<rparr>) sample_world) =
     failure_response (Error ''Missing transaction reference'') \<and>
   filter is_external
     (fst (handler (sample_request\<lparr>query := [(''transaction_id'', ''4975363'')]\<rparr>)
             sample_world)) = []"
proof -
  have 1: "method (sample_request\<lparr>query := [(''transaction_id'', ''4975363'')]\<rparr>) = ''GET''"
    by (simp add: sample_request_def)
  have 2: "map_of (query (sample_request\<lparr>query := [(''transaction_id'', ''4975363'')]\<rparr>))
             ''tx_ref'' = None"
    by simp
  from missing_tx_ref_on_GET [OF 1 2, of sample_world] 1 2
  show ?thesis by simp
qed

text \<open>
  The claim as stated fails for a \<open>POST\<close> request without \<open>tx_ref\<close>: the response is
  the plain text \<open>Method not allowed\<close> with status 405, not a failure carrying details.
\<close>

theorem missing_tx_ref_on_POST:
  "map_of (query \<lparr>method = ''POST'', query = []\<rparr>) ''tx_ref'' = None \<and>
   snd (handler \<lparr>method = ''POST'', query = []\<rparr> sample_world) =
     \<lparr>status = 405, headers = corsHeaders, body = Text ''Method not allowed''\<rparr> \<and>
   snd (handler \<lparr>method = ''POST'', query = []\<rparr> sample_world) \<noteq>
     failure_response (Error ''Missing transaction reference'')"
  by (simp add: handler_def failure_response_def)

text \<open>
  C9. Every response of the handler, whether the preflight answer, the rejection of a
  method, the success response or the failure response, carries both cross-origin
  headers.
\<close>

theorem cors_headers_on_every_response:
  "map_of (headers (snd (handler req w))) ''Access-Control-Allow-Origin'' = Some ''*'' \<and>
   map_of (headers (snd (handler req w))) ''Access-Control-Allow-Headers'' =
     Some ''authorization, x-client-info, apikey, content-type''"
proof (cases "method req = ''GET''")
  case False
  then show ?thesis
    by (simp add: handler_def corsHeaders_def)
next
  case True
  show ?thesis
  proof (cases "snd (try_block req w)")
    case (Inl e)
    with True show ?thesis
      by (simp add: snd_handler_GET failure_response_def corsHeaders_def)
  next
    case (Inr r)
    then obtain sid uid i where "r = success_response sid uid i"
      using try_block_success by blast
    with True Inr show ?thesis
      by (simp add: snd_handler_GET success_response_def corsHeaders_def)
  qed
qed

theorem cors_headers_witness:
  "map_of (headers (snd (handler \<lparr>method = ''OPTIONS'', query = []\<rparr> sample_world)))
     ''Access-Control-Allow-Origin'' = Some ''*'' \<and>
   map_of (headers (snd (handler \<lparr>method = ''DELETE'', query = []\<rparr> sample_world)))
     ''Access-Control-Allow-Origin'' = Some ''*'' \<and>
   map_of (headers (snd (handler sample_request sample_world)))
     ''Access-Control-Allow-Origin'' = Some ''*'' \<and>
   map_of (headers (snd (handler sample_request no_account_world)))
     ''Access-Control-Allow-Origin'' = Some ''*''"
  using cors_headers_on_every_response [of "\<lparr>method = ''OPTIONS'', query = []\<rparr>" sample_world]
    cors_headers_on_every_response [of "\<lparr>method = ''DELETE'', query = []\<rparr>" sample_world]
    cors_headers_on_every_response [of sample_request sample_world]
    cors_headers_on_every_response [of sample_request no_account_world]
  by simp

text \<open>
  C10. In every invocation that answers with the success response, one plan type is
  used throughout: the \<open>plan_type\<close> of the payment's metadata when it is present and
  truthy, otherwise the \<open>plan_type\<close> of the subscription row. The profile update
  stores it, the fee rate of the transaction insert is looked up under it, the
  notification carries it in its metadata and prints it in its message, and the
  response returns it. In the sample invocation the metadata says \<open>professional\<close> and the
  row says \<open>starter\<close>: the metadata wins.
\<close>

theorem plan_type_precedence:
  assumes "body (snd (handler req w)) = JsonText b"
    and "own b ''success'' = JBool True"
    and "gateway w = JsonBody vr"
    and "subscriptions_select w = Rows [sub]"
    and "plan = (if truthy (opt_prop (own (own vr ''data'') ''meta'') ''plan_type'')
                 then opt_prop (own (own vr ''data'') ''meta'') ''plan_type''
                 else own sub ''plan_type'')"
  shows "\<exists>profile_row uid transaction_row fee notification_row plan_text.
           filter (updates ''profiles'') (fst (handler req w)) =
             [Update ''profiles'' profile_row ''id'' uid] \<and>
           own profile_row ''plan_type'' = plan \<and>
           filter (inserts ''transactions'') (fst (handler req w)) =
             [Insert ''transactions'' transaction_row] \<and>
           getPlanFeeRate plan = Inr fee \<and>
           own transaction_row ''plan_fee_rate'' = fee \<and>
           filter (inserts ''notifications'') (fst (handler req w)) =
             [Insert ''notifications'' notification_row] \<and>
           own (own notification_row ''metadata'') ''plan_type'' = plan \<and>
           to_string plan = Inr plan_text \<and>
           own notification_row ''message'' =
             JStr (''Your '' @ plan_text @
                   (if opt_prop (own (own vr ''data'') ''meta'') ''is_trial'' = JBool True
                    then '' plan trial has started! You have 7 days to try all features.''
                    else '' plan subscription is now active. Welcome to PayLockr!'')) \<and>
           own b ''plan_type'' = plan"
proof -
  from assms(1,2) obtain t pd sub' i u g fee msg where
    m: "method req = ''GET''" and
    p: "snd (prepare req w) = Inr (t, pd, sub', i, u)" and
    n: "\<not> nullish pd" "\<not> nullish sub'" and
    g: "opt_toString ''paymentData.id'' (own pd ''id'') = Inr g" and
    ok: "subscriptions_update w = None" and
    fee: "getPlanFeeRate (planType i) = Inr fee" and
    msg: "notification_message i = Inr msg"
    by (rule successful_run)
  note run = completed_run [OF m p n g ok fee msg]
  from snd_prepare_Inr(3) [OF p] assms(3) have pd: "pd = own vr ''data''"
    by auto
  from snd_prepare_Inr(4) [OF p] assms(4) have sub: "sub' = sub"
    by simp
  from snd_prepare_Inr(6) [OF p] have plan: "planType i = plan"
    unfolding pd sub assms(5) by simp
  from snd_prepare_Inr(6) [OF p] have
    trial: "isTrial i = (opt_prop (own (own vr ''data'') ''meta'') ''is_trial'' = JBool True)"
    unfolding pd by simp
  from notification_message_text [OF msg] obtain plan_text where
    shown: "to_string plan = Inr plan_text"
      "msg = ''Your '' @ plan_text @
             (if opt_prop (own (own vr ''data'') ''meta'') ''is_trial'' = JBool True
              then '' plan trial has started! You have 7 days to try all features.''
              else '' plan subscription is now active. Welcome to PayLockr!'')"
    unfolding plan trial by blast
  have 1: "filter (updates ''profiles'') (fst (handler req w)) =
             [Update ''profiles'' (profile_changes i (clock_profile w)) ''id'' u]"
    by (simp add: run filter_updates_prepare)
  have 2: "own (profile_changes i (clock_profile w)) ''plan_type'' = plan"
    by (simp add: profile_changes_def plan)
  have 3: "filter (inserts ''transactions'') (fst (handler req w)) =
             [Insert ''transactions''
                (transaction_record u t g (own pd ''amount'') (own pd ''currency'') i
                   (own pd ''payment_type'') fee)]"
    by (simp add: run filter_inserts_prepare)
  have 4: "own (transaction_record u t g (own pd ''amount'') (own pd ''currency'') i
                  (own pd ''payment_type'') fee) ''plan_fee_rate'' = fee"
    by (simp add: transaction_record_def)
  have 5: "filter (inserts ''notifications'') (fst (handler req w)) =
             [Insert ''notifications'' (notification_record u msg i (own sub' ''id''))]"
    by (simp add: run filter_inserts_prepare)
  have 6: "own (own (notification_record u msg i (own sub' ''id'')) ''metadata'')
             ''plan_type'' = plan"
    by (simp add: notification_record_def plan)
  have 7: "own (notification_record u msg i (own sub' ''id'')) ''message'' =
             JStr (''Your '' @ plan_text @
                   (if opt_prop (own (own vr ''data'') ''meta'') ''is_trial'' = JBool True
                    then '' plan trial has started! You have 7 days to try all features.''
                    else '' plan subscription is now active. Welcome to PayLockr!''))"
    unfolding shown(2) [symmetric] by (simp add: notification_record_def)
  from assms(1) have "b = JObj [(''success'', JBool True),
                      (''subscription_id'', own sub' ''id''),
                      (''user_id'', u),
                      (''plan_type'', planType i),
                      (''is_trial'', JBool (isTrial i)),
                      (''message'',
                       JStr ''Subscription verified and activated successfully'')]"
    by (simp add: run success_response_def)
  then have 8: "own b ''plan_type'' = plan"
    by (simp add: plan)
  from fee have 9: "getPlanFeeRate plan = Inr fee"
    unfolding plan .
  from 1 2 3 4 5 6 7 8 9 shown(1) show ?thesis
    by blast
qed

theorem plan_type_precedence_witness:
  "body (snd (handler sample_request sample_world)) =
     JsonText (JObj [(''success'', JBool True),
                     (''subscription_id'', JStr ''sub-1''),
                     (''user_id'', JStr ''user-7''),
                     (''plan_type'', JStr ''professional''),
                     (''is_trial'', JBool False),
                     (''message'', JStr ''Subscription verified and activated successfully'')]) \<and>
   gateway sample_world = JsonBody sample_answer \<and>
   subscriptions_select sample_world = Rows [sample_subscription] \<and>
   opt_prop (own (own sample_answer ''data'') ''meta'') ''plan_type'' = JStr ''professional'' \<and>
   own sample_subscription ''plan_type'' = JStr ''starter'' \<and>
   (\<exists>profile_row uid transaction_row notification_row.
      filter (updates ''profiles'') (fst (handler sample_request sample_world)) =
        [Update ''profiles'' profile_row ''id'' uid] \<and>
      own profile_row ''plan_type'' = JStr ''professional'' \<and>
      filter (inserts ''transactions'') (fst (handler sample_request sample_world)) =
        [Insert ''transactions'' transaction_row] \<and>
      own transaction_row ''plan_fee_rate'' = JNum ''0.03'' \<and>
      filter (inserts ''notifications'') (fst (handler sample_request sample_world)) =
        [Insert ''notifications'' notification_row] \<and>
      own (own notification_row ''metadata'') ''plan_type'' = JStr ''professional'' \<and>
      own notification_row ''message'' =
        JStr ''Your professional plan subscription is now active. Welcome to PayLockr!'')"
proof -
  let ?b = "JObj [(''success'', JBool True),
                     (''subscription_id'', JStr ''sub-1''),
                     (''user_id'', JStr ''user-7''),
                     (''plan_type'', JStr ''professional''),
                     (''is_trial'', JBool False),
                     (''message'', JStr ''Subscription verified and activated successfully'')]"
  have 1: "body (snd (handler sample_request sample_world)) = JsonText ?b"
    by (simp add: model_defs sample_defs success_response_def)
  have 2: "own ?b ''success'' = JBool True"
    by simp
  have 3: "gateway sample_world = JsonBody sample_answer"
    and 4: "subscriptions_select sample_world = Rows [sample_subscription]"
    by (simp_all add: sample_defs)
  have m: "opt_prop (own (own sample_answer ''data'') ''meta'') ''plan_type'' =
             JStr ''professional''"
    and t: "opt_prop (own (own sample_answer ''data'') ''meta'') ''is_trial'' = JUndefined"
    and r: "own sample_subscription ''plan_type'' = JStr ''starter''"
    by (simp_all add: sample_defs opt_prop_def)
  have 5: "JStr ''professional'' =
           (if truthy (opt_prop (own (own sample_answer ''data'') ''meta'') ''plan_type'')
            then opt_prop (own (own sample_answer ''data'') ''meta'') ''plan_type''
            else own sample_subscription ''plan_type'')"
    by (simp add: m)
  have f: "getPlanFeeRate (JStr ''professional'') = Inr (JNum ''0.03'')"
    by (simp add: getPlanFeeRate_table)
  from plan_type_precedence [OF 1 2 3 4 5] f t
  have "\<exists>profile_row uid transaction_row notification_row.
      filter (updates ''profiles'') (fst (handler sample_request sample_world)) =
        [Update ''profiles'' profile_row ''id'' uid] \<and>
      own profile_row ''plan_type'' = JStr ''professional'' \<and>
      filter (inserts ''transactions'') (fst (handler sample_request sample_world)) =
        [Insert ''transactions'' transaction_row] \<and>
      own transaction_row ''plan_fee_rate'' = JNum ''0.03'' \<and>
      filter (inserts ''notifications'') (fst (handler sample_request sample_world)) =
        [Insert ''notifications'' notification_row] \<and>
      own (own notification_row ''metadata'') ''plan_type'' = JStr ''professional'' \<and>
      own notification_row ''message'' =
        JStr ''Your professional plan subscription is now active. Welcome to PayLockr!''"
    by auto
  with 1 3 4 m r show ?thesis
    by simp
qed

end
